theory Spec2Isabelle
  imports Complex_Main
begin

section \<open>Convex and concave nonlinear handlers (cons\_expr\_nlhdlr\_convex.c)\<close>

text \<open>
  A shallow embedding of the curvature detection and estimation code of
  \<^verbatim>\<open>src/scip/cons_expr_nlhdlr_convex.c\<close>.

  Expressions live in a store: an address is a natural number, address \<open>0\<close> is the
  \<^verbatim>\<open>NULL\<close> pointer, and \<open>nextaddr\<close> is the allocation pointer (a new expression is
  placed at \<open>nextaddr\<close>, which is then advanced). The original expression graph and the
  nlhdlr-expressions (the private copy) share the store, as they share the memory of the
  C program: a leaf of the copy \<^emph>\<open>is\<close> the original leaf. Floating point numbers are
  modelled by the reals. Functions of the expression constraint handler that the file
  calls but does not define (activities, monotonicity, the curvature callback of the
  expression handlers, the quadratic recognition, the facet routine, the numerical
  tolerances) are fields of an environment record and stay arbitrary in every general
  theorem.
\<close>

subsection \<open>Expressions and the store\<close>

datatype EXPRCURV = EXPRCURV_UNKNOWN | EXPRCURV_CONVEX | EXPRCURV_CONCAVE | EXPRCURV_LINEAR

datatype MONOTONE = MONOTONE_UNKNOWN | MONOTONE_INC | MONOTONE_DEC | MONOTONE_CONST

text \<open>Expression handler together with the handler specific data of an expression:
  the variable of a variable expression, the value of a constant, coefficients and constant
  of a sum, the coefficient of a product, the exponent of a power.\<close>

datatype exprkind =
    Var nat
  | Value real
  | Sum "real list" real
  | Product real
  | Power real
  | Other string

record expr =
  kind :: exprkind
  children :: "nat list"
  curvature :: EXPRCURV
  auxvar :: "nat option"

definition isSum :: "exprkind \<Rightarrow> bool" where
  "isSum k = (case k of Sum cs c \<Rightarrow> True | _ \<Rightarrow> False)"

definition isProduct :: "exprkind \<Rightarrow> bool" where
  "isProduct k = (case k of Product c \<Rightarrow> True | _ \<Rightarrow> False)"

definition isPower :: "exprkind \<Rightarrow> bool" where
  "isPower k = (case k of Power p \<Rightarrow> True | _ \<Rightarrow> False)"

definition isVar :: "exprkind \<Rightarrow> bool" where
  "isVar k = (case k of Var v \<Rightarrow> True | _ \<Rightarrow> False)"

definition isValue :: "exprkind \<Rightarrow> bool" where
  "isValue k = (case k of Value v \<Rightarrow> True | _ \<Rightarrow> False)"

text \<open>The accessors of handler specific data. The C functions are only called on
  expressions of the matching handler; on another expression the model returns 0.\<close>

definition PowExponent :: "exprkind \<Rightarrow> real" where
  "PowExponent k = (case k of Power p \<Rightarrow> p | _ \<Rightarrow> 0)"

definition ProductCoef :: "exprkind \<Rightarrow> real" where
  "ProductCoef k = (case k of Product c \<Rightarrow> c | _ \<Rightarrow> 0)"

definition SumCoefs :: "exprkind \<Rightarrow> real list" where
  "SumCoefs k = (case k of Sum cs c \<Rightarrow> cs | _ \<Rightarrow> [])"

text \<open>\<^verbatim>\<open>struct SCIP_ConsExpr_NlhdlrData\<close>; \<open>evalsol\<close> is \<open>None\<close> while the pointer is
  \<^verbatim>\<open>NULL\<close>.\<close>

record nlhdlrdata =
  isnlhdlrconvex :: bool
  evalsol :: "nat option"
  detectsum :: bool
  preferextended :: bool
  cvxquadratic :: bool
  cvxsignomial :: bool
  cvxprodcomp :: bool
  handletrivial :: bool

text \<open>The functions of the expression constraint handler used by the detection. Each takes
  the address of an (original) expression. \<open>curvatureExprHdlr e c\<close> is
  \<^verbatim>\<open>SCIPcurvatureConsExprExprHdlr\<close>: whether \<open>e\<close> can have curvature \<open>c\<close> and the curvature
  then required of each child (an array, indexed from 0). \<open>exprcurvMonomialInv\<close> returns
  \<open>None\<close> for \<^verbatim>\<open>FALSE\<close> and the array of factor curvatures otherwise. \<open>getQuadratic\<close> returns
  \<open>None\<close> if the expression is not quadratic and otherwise the numbers of quadratic and of
  bilinear expressions.\<close>

record scipenv =
  exprActivity :: "nat \<Rightarrow> real \<times> real"
  exprMonotonicity :: "nat \<Rightarrow> MONOTONE"
  curvatureExprHdlr :: "nat \<Rightarrow> EXPRCURV \<Rightarrow> bool \<times> (nat \<Rightarrow> EXPRCURV)"
  exprcurvMultiply :: "real \<Rightarrow> EXPRCURV \<Rightarrow> EXPRCURV"
  exprcurvMonomialInv :: "EXPRCURV \<Rightarrow> real list \<Rightarrow> (real \<times> real) list \<Rightarrow> (nat \<Rightarrow> EXPRCURV) option"
  getQuadratic :: "nat \<Rightarrow> (nat \<times> nat) option"
  getQuadraticCurvature :: "nat \<Rightarrow> EXPRCURV"
  hasBwdiff :: "exprkind \<Rightarrow> bool"

text \<open>The state of one construction: the store, the hashmap from nlhdlr-expressions to
  original expressions and the stack of expressions still to be investigated (the top of
  the stack is the last element of the list).\<close>

record cstate =
  heap :: "nat \<Rightarrow> expr"
  nextaddr :: nat
  nlexpr2origexpr :: "nat \<rightharpoonup> nat"
  stack :: "nat list"

definition nchildren :: "cstate \<Rightarrow> nat \<Rightarrow> nat" where
  "nchildren s e = length (children (heap s e))"

text \<open>\<^verbatim>\<open>SCIPhashmapGetImage\<close> returns \<^verbatim>\<open>NULL\<close> for a key that is not in the map.\<close>

definition hashmapGetImage :: "(nat \<rightharpoonup> nat) \<Rightarrow> nat \<Rightarrow> nat" where
  "hashmapGetImage m k = (case m k of None \<Rightarrow> 0 | Some v \<Rightarrow> v)"

definition setCurvature :: "nat \<Rightarrow> EXPRCURV \<Rightarrow> cstate \<Rightarrow> cstate" where
  "setCurvature e c s = s\<lparr>heap := (heap s)(e := (heap s e)\<lparr>curvature := c\<rparr>)\<rparr>"

definition appendExpr :: "nat \<Rightarrow> nat \<Rightarrow> cstate \<Rightarrow> cstate" where
  "appendExpr e child s = s\<lparr>heap := (heap s)(e := (heap s e)\<lparr>children := children (heap s e) @ [child]\<rparr>)\<rparr>"

text \<open>\<^verbatim>\<open>nlhdlrExprCreate\<close>: a leaf of the original is not copied; any other expression is
  duplicated without its children, the wanted curvature is stored in the copy and the copy
  is entered into the hashmap.\<close>

definition nlhdlrExprCreate :: "nat \<Rightarrow> EXPRCURV \<Rightarrow> cstate \<Rightarrow> nat \<times> cstate" where
  "nlhdlrExprCreate origexpr curv s =
     (if nchildren s origexpr = 0 then
        (origexpr,
         if nlexpr2origexpr s origexpr \<noteq> None then s
         else s\<lparr>nlexpr2origexpr := (nlexpr2origexpr s)(origexpr \<mapsto> origexpr)\<rparr>)
      else
        (nextaddr s,
         s\<lparr>heap := (heap s)(nextaddr s :=
               \<lparr>kind = kind (heap s origexpr), children = [], curvature = curv, auxvar = None\<rparr>),
           nextaddr := Suc (nextaddr s),
           nlexpr2origexpr := (nlexpr2origexpr s)(nextaddr s \<mapsto> origexpr)\<rparr>))"

text \<open>The loop of \<^verbatim>\<open>nlhdlrExprGrowChildren\<close> over the children of the original
  expression; \<open>i\<close> is the loop index.\<close>

fun growChildrenLoop :: "nat \<Rightarrow> nat list \<Rightarrow> (nat \<Rightarrow> EXPRCURV) \<Rightarrow> nat \<Rightarrow> cstate \<Rightarrow> cstate" where
  "growChildrenLoop nlhdlrexpr [] childrencurv i s = s"
| "growChildrenLoop nlhdlrexpr (origchild # rest) childrencurv i s =
     (case nlhdlrExprCreate origchild (childrencurv i) s of
        (child, s1) \<Rightarrow> growChildrenLoop nlhdlrexpr rest childrencurv (Suc i) (appendExpr nlhdlrexpr child s1))"

text \<open>\<^verbatim>\<open>nlhdlrExprGrowChildren\<close>; \<open>childrencurv = None\<close> is the \<^verbatim>\<open>NULL\<close> argument.\<close>

definition nlhdlrExprGrowChildren :: "nat \<Rightarrow> (nat \<Rightarrow> EXPRCURV) option \<Rightarrow> cstate \<Rightarrow> cstate" where
  "nlhdlrExprGrowChildren nlhdlrexpr childrencurv s =
     (let origexpr = hashmapGetImage (nlexpr2origexpr s) nlhdlrexpr
      in if nchildren s origexpr = 0 then s
         else growChildrenLoop nlhdlrexpr (children (heap s origexpr))
                (case childrencurv of None \<Rightarrow> (\<lambda>i. EXPRCURV_UNKNOWN) | Some cc \<Rightarrow> cc) 0 s)"

definition exprstackPush :: "nat list \<Rightarrow> cstate \<Rightarrow> cstate" where
  "exprstackPush exprs s = s\<lparr>stack := stack s @ exprs\<rparr>"

definition exprstackPop :: "cstate \<Rightarrow> nat \<times> cstate" where
  "exprstackPop s = (last (stack s), s\<lparr>stack := butlast (stack s)\<rparr>)"

definition exprstackIsEmpty :: "cstate \<Rightarrow> bool" where
  "exprstackIsEmpty s = (stack s = [])"

subsection \<open>The curvature checks\<close>

text \<open>\<^verbatim>\<open>DECL_CURVCHECK\<close>: a curvature check receives the nlhdlr-expression, whether it is the
  root, and the value that the caller's variable \<^verbatim>\<open>success\<close> holds at the call; it returns
  the value of \<^verbatim>\<open>success\<close> at its return and the new state.\<close>

type_synonym curvcheck = "scipenv \<Rightarrow> nlhdlrdata \<Rightarrow> nat \<Rightarrow> bool \<Rightarrow> bool \<Rightarrow> cstate \<Rightarrow> bool \<times> cstate"

text \<open>Body of the loop of \<^verbatim>\<open>curvCheckQuadratic\<close> over the children of \<open>nlexpr\<close>.\<close>

definition quadraticChild :: "nat \<Rightarrow> nat \<Rightarrow> cstate \<Rightarrow> nat \<Rightarrow> cstate" where
  "quadraticChild expr nlexpr s i =
     (let child = children (heap s nlexpr) ! i
      in if isPower (kind (heap s child)) \<and> PowExponent (kind (heap s child)) = 2 then
           (let s1 = nlhdlrExprGrowChildren child (Some (\<lambda>j. EXPRCURV_LINEAR)) s
            in exprstackPush (take 1 (children (heap s1 child))) s1)
         else if isProduct (kind (heap s child)) \<and> nchildren s (children (heap s expr) ! i) = 2 then
           (let s1 = nlhdlrExprGrowChildren child (Some (\<lambda>j. EXPRCURV_LINEAR)) s
            in exprstackPush (take 2 (children (heap s1 child))) s1)
         else exprstackPush [child] (setCurvature child EXPRCURV_LINEAR s))"

definition curvCheckQuadratic :: curvcheck where
  "curvCheckQuadratic env nd nlexpr isrootexpr success0 s =
     (if \<not> cvxquadratic nd then (False, s)
      else if \<not> isSum (kind (heap s nlexpr)) then (False, s)
      else if curvature (heap s nlexpr) = EXPRCURV_LINEAR then (False, s)
      else
        (let expr = hashmapGetImage (nlexpr2origexpr s) nlexpr
         in case getQuadratic env expr of
              None \<Rightarrow> (False, s)
            | Some (nquadexprs, nbilinexprs) \<Rightarrow>
                if nquadexprs \<le> 1 then (False, s)
                else if isrootexpr \<and> \<not> detectsum nd \<and> nbilinexprs = 0 then (False, s)
                else if getQuadraticCurvature env expr \<noteq> curvature (heap s nlexpr) then (False, s)
                else
                  (let s1 = nlhdlrExprGrowChildren nlexpr None s
                   in (True, foldl (quadraticChild expr nlexpr) s1 [0 ..< nchildren s1 nlexpr]))))"

text \<open>Body of the second loop of \<^verbatim>\<open>curvCheckSignomial\<close> over the factors.\<close>

definition signomialChild :: "nlhdlrdata \<Rightarrow> (nat \<Rightarrow> EXPRCURV) \<Rightarrow> nat \<Rightarrow> cstate \<Rightarrow> nat \<Rightarrow> cstate" where
  "signomialChild nd curv nlexpr s i =
     (let child0 = children (heap s nlexpr) ! i;
          s1 = (if isPower (kind (heap s child0))
                then nlhdlrExprGrowChildren child0 (Some (\<lambda>j. curv (i + j))) s else s);
          child = (if isPower (kind (heap s child0)) then children (heap s1 child0) ! 0 else child0);
          s2 = (if preferextended nd \<and> nchildren s1 child > 1
                then setCurvature child EXPRCURV_LINEAR s1 else s1)
      in exprstackPush [child] s2)"

text \<open>Exponent and bounds that the first loop of \<^verbatim>\<open>curvCheckSignomial\<close> stores for one
  factor of the original product.\<close>

definition signomialExponent :: "cstate \<Rightarrow> nat \<Rightarrow> real" where
  "signomialExponent s child =
     (if \<not> isPower (kind (heap s child)) then 1 else PowExponent (kind (heap s child)))"

definition signomialBounds :: "scipenv \<Rightarrow> cstate \<Rightarrow> nat \<Rightarrow> real \<times> real" where
  "signomialBounds env s child =
     (if \<not> isPower (kind (heap s child)) then exprActivity env child
      else exprActivity env (children (heap s child) ! 0))"

definition curvCheckSignomial :: curvcheck where
  "curvCheckSignomial env nd nlexpr isrootexpr success0 s =
     (if \<not> cvxsignomial nd then (False, s)
      else if \<not> isProduct (kind (heap s nlexpr)) then (False, s)
      else
        (let expr = hashmapGetImage (nlexpr2origexpr s) nlexpr;
             nfactors = nchildren s expr
         in if nfactors \<le> 1 then (False, s)
            else
              (case exprcurvMonomialInv env
                      (exprcurvMultiply env (ProductCoef (kind (heap s expr))) (curvature (heap s nlexpr)))
                      (map (signomialExponent s) (children (heap s expr)))
                      (map (signomialBounds env s) (children (heap s expr))) of
                 None \<Rightarrow> (False, s)
               | Some curv \<Rightarrow>
                   (let s1 = nlhdlrExprGrowChildren nlexpr (Some curv) s
                    in (True, foldl (signomialChild nd curv nlexpr) s1 [0 ..< nfactors])))))"

text \<open>One pass of the loop of \<^verbatim>\<open>curvCheckProductComposite\<close> over \<open>fidx\<close>: the result is
  \<open>None\<close> where the C code continues with the next \<open>fidx\<close>, and \<open>(f, c, h, ch)\<close> where it
  leaves the loop. Expressions are compared as pointers.\<close>

definition productCompositeMatch :: "cstate \<Rightarrow> nat \<Rightarrow> nat \<Rightarrow> (nat \<times> real \<times> nat \<times> nat) option" where
  "productCompositeMatch s expr fidx =
     (let f = children (heap s expr) ! fidx
      in if nchildren s f \<noteq> 1 then None
         else
           (let ch = children (heap s f) ! 0;
                ischsum = (isSum (kind (heap s ch)) \<and> nchildren s ch = 1);
                c = (if ischsum then SumCoefs (kind (heap s ch)) ! 0 else 1);
                h = (if ischsum then children (heap s ch) ! 0 else ch)
            in if children (heap s expr) ! (1 - fidx) = h then Some (f, c, h, ch) else None))"

text \<open>The conditions of \<^verbatim>\<open>curvCheckProductComposite\<close> on monotonicity, signs and curvature
  of f: \<open>None\<close> where the check returns without success, and otherwise the value of
  \<^verbatim>\<open>success\<close> after the call of the curvature callback of f together with \<open>hcurv\<close>.\<close>

definition productCompositeConditions ::
    "scipenv \<Rightarrow> EXPRCURV \<Rightarrow> nat \<Rightarrow> real \<Rightarrow> nat \<Rightarrow> (bool \<times> EXPRCURV) option" where
  "productCompositeConditions env desiredcurv f c h =
     (let fbounds = exprActivity env f;
          hbounds = exprActivity env h;
          fmonotonicity = exprMonotonicity env f
      in if fst hbounds < 0 \<and> snd hbounds > 0 then None
         else if fmonotonicity = MONOTONE_UNKNOWN then None
         else if desiredcurv = EXPRCURV_CONVEX then
           (if (c > 0 \<and> fmonotonicity \<noteq> MONOTONE_INC) \<or> (c < 0 \<and> fmonotonicity \<noteq> MONOTONE_DEC) then None
            else if fst hbounds \<ge> 0 then
              Some (fst (curvatureExprHdlr env f EXPRCURV_CONVEX),
                    if fst fbounds < 0 then EXPRCURV_LINEAR else EXPRCURV_CONVEX)
            else
              Some (fst (curvatureExprHdlr env f EXPRCURV_CONCAVE),
                    if snd fbounds > 0 then EXPRCURV_LINEAR else EXPRCURV_CONCAVE))
         else
           (if (c > 0 \<and> fmonotonicity \<noteq> MONOTONE_DEC) \<or> (c < 0 \<and> fmonotonicity \<noteq> MONOTONE_INC) then None
            else if snd hbounds \<le> 0 then
              Some (fst (curvatureExprHdlr env f EXPRCURV_CONVEX),
                    if fst fbounds < 0 then EXPRCURV_LINEAR else EXPRCURV_CONCAVE)
            else
              Some (fst (curvatureExprHdlr env f EXPRCURV_CONCAVE),
                    if snd fbounds > 0 then EXPRCURV_LINEAR else EXPRCURV_CONVEX)))"

text \<open>The part of \<^verbatim>\<open>curvCheckProductComposite\<close> after the conditions: the copies of f and h
  become the children of \<open>nlexpr\<close>, the copy of h is pushed and gets curvature \<open>hcurv\<close>, and
  it also becomes the child of the copy of ch (or of f).\<close>

definition productCompositeGrow :: "nat \<Rightarrow> nat \<Rightarrow> bool \<Rightarrow> EXPRCURV \<Rightarrow> cstate \<Rightarrow> cstate" where
  "productCompositeGrow nlexpr fidx hisch hcurv s =
     (let s1 = nlhdlrExprGrowChildren nlexpr None s;
          s2 = exprstackPush [children (heap s1 nlexpr) ! (1 - fidx)] s1;
          s3 = setCurvature (children (heap s2 nlexpr) ! (1 - fidx)) hcurv s2
      in if \<not> hisch then
           (let s4 = nlhdlrExprGrowChildren (children (heap s3 nlexpr) ! fidx) None s3
            in appendExpr (children (heap s4 (children (heap s4 nlexpr) ! fidx)) ! 0)
                 (children (heap s4 nlexpr) ! (1 - fidx)) s4)
         else appendExpr (children (heap s3 nlexpr) ! fidx) (children (heap s3 nlexpr) ! (1 - fidx)) s3)"

definition curvCheckProductComposite :: curvcheck where
  "curvCheckProductComposite env nd nlexpr isrootexpr success0 s =
     (if \<not> cvxprodcomp nd then (False, s)
      else if \<not> isProduct (kind (heap s nlexpr)) then (False, s)
      else
        (let expr = hashmapGetImage (nlexpr2origexpr s) nlexpr
         in if nchildren s expr \<noteq> 2 then (False, s)
            else
              (case (case productCompositeMatch s expr 0 of
                       Some m \<Rightarrow> Some (0, m)
                     | None \<Rightarrow> (case productCompositeMatch s expr 1 of
                                  Some m \<Rightarrow> Some (1, m)
                                | None \<Rightarrow> None)) of
                 None \<Rightarrow> (False, s)
               | Some (fidx, f, c, h, ch) \<Rightarrow>
                   (case productCompositeConditions env
                           (exprcurvMultiply env (ProductCoef (kind (heap s nlexpr))) (curvature (heap s nlexpr)))
                           f c h of
                      None \<Rightarrow> (False, s)
                    | Some (success, hcurv) \<Rightarrow>
                        if \<not> success then (False, s)
                        else (True, productCompositeGrow nlexpr fidx (h = ch) hcurv s)))))"

text \<open>\<^verbatim>\<open>curvCheckExprhdlr\<close> does not initialise \<^verbatim>\<open>success\<close>: where it declines a sum at the
  root it returns with the value the variable had at the call.\<close>

definition curvCheckExprhdlr :: curvcheck where
  "curvCheckExprhdlr env nd nlexpr isrootexpr success0 s =
     (let origexpr = hashmapGetImage (nlexpr2origexpr s) nlexpr;
          n = nchildren s origexpr
      in if n = 0 then (fst (curvatureExprHdlr env origexpr (curvature (heap s nlexpr))), s)
         else if isrootexpr \<and> \<not> detectsum nd \<and> isSum (kind (heap s nlexpr)) \<and> n > 1 then (success0, s)
         else
           (case curvatureExprHdlr env origexpr (curvature (heap s nlexpr)) of
              (success, childcurv) \<Rightarrow>
                if \<not> success then (False, s)
                else
                  (let s1 = nlhdlrExprGrowChildren nlexpr (Some childcurv) s;
                       s2 = (if n > 1 \<and> preferextended nd
                             then foldl (\<lambda>t i. setCurvature (children (heap t nlexpr) ! i) EXPRCURV_LINEAR t) s1 [0 ..< n]
                             else s1)
                   in (True, exprstackPush (take n (children (heap s2 nlexpr))) s2))))"

text \<open>The list \<^verbatim>\<open>CURVCHECKS\<close> and the loop of \<^verbatim>\<open>constructExpr\<close> that tries the checks until
  one succeeds.\<close>

definition CURVCHECKS :: "curvcheck list" where
  "CURVCHECKS = [curvCheckProductComposite, curvCheckSignomial, curvCheckQuadratic, curvCheckExprhdlr]"

fun tryCurvChecks :: "curvcheck list \<Rightarrow> scipenv \<Rightarrow> nlhdlrdata \<Rightarrow> nat \<Rightarrow> bool \<Rightarrow> bool \<Rightarrow> cstate \<Rightarrow> bool \<times> cstate" where
  "tryCurvChecks [] env nd nlexpr isrootexpr success0 s = (success0, s)"
| "tryCurvChecks (check # checks) env nd nlexpr isrootexpr success0 s =
     (case check env nd nlexpr isrootexpr success0 s of
        (success, s1) \<Rightarrow>
          if success then (True, s1)
          else tryCurvChecks checks env nd nlexpr isrootexpr success s1)"

text \<open>\<^verbatim>\<open>exprIsMultivarLinear\<close>: a sum with more than one child, none of which has children.\<close>

definition exprIsMultivarLinear :: "cstate \<Rightarrow> nat \<Rightarrow> bool" where
  "exprIsMultivarLinear s e =
     (if \<not> isSum (kind (heap s e)) then False
      else if nchildren s e \<le> 1 then False
      else list_all (\<lambda>c. \<not> nchildren s c > 0) (children (heap s e)))"

subsection \<open>Construction of the nlhdlr-expression\<close>

text \<open>The variables of the loop of \<^verbatim>\<open>constructExpr\<close>; \<open>curvsuccess\<close> is \<open>None\<close> when the
  caller passed \<^verbatim>\<open>NULL\<close>.\<close>

record loopstate =
  cs :: cstate
  isrootexpr :: bool
  nleafs :: nat
  curvsuccess :: "bool option"

text \<open>The four branches of the loop body for the expression taken from the stack. The local
  variable \<^verbatim>\<open>success\<close> of the third branch is not initialised; \<open>uninit\<close> is the value it
  happens to hold.\<close>

definition constructVisit :: "scipenv \<Rightarrow> nlhdlrdata \<Rightarrow> bool \<Rightarrow> nat \<Rightarrow> bool \<Rightarrow> cstate \<Rightarrow> cstate" where
  "constructVisit env nd uninit nlexpr isroot s =
     (if isnlhdlrconvex nd \<and> \<not> hasBwdiff env (kind (heap s nlexpr)) then s
      else if \<not> isnlhdlrconvex nd \<and> exprIsMultivarLinear s (hashmapGetImage (nlexpr2origexpr s) nlexpr) then s
      else if curvature (heap s nlexpr) \<noteq> EXPRCURV_UNKNOWN then
        snd (tryCurvChecks CURVCHECKS env nd nlexpr isroot uninit s)
      else
        (let s1 = nlhdlrExprGrowChildren nlexpr None s
         in exprstackPush (children (heap s1 nlexpr)) s1))"

definition constructStep :: "scipenv \<Rightarrow> nlhdlrdata \<Rightarrow> bool \<Rightarrow> loopstate \<Rightarrow> loopstate" where
  "constructStep env nd uninit ls =
     (case exprstackPop (cs ls) of
        (nlexpr, s0) \<Rightarrow>
          (let s1 = constructVisit env nd uninit nlexpr (isrootexpr ls) s0;
               isleaf = (length (stack s1) = length (stack s0))
           in \<lparr>cs = s1, isrootexpr = False,
               nleafs = (if isleaf then nleafs ls + 1 else nleafs ls),
               curvsuccess =
                 (if isleaf \<and> curvsuccess ls \<noteq> None \<and> \<not> isVar (kind (heap s1 nlexpr))
                      \<and> \<not> isValue (kind (heap s1 nlexpr))
                  then Some False else curvsuccess ls)\<rparr>))"

text \<open>The loop runs while the stack is not empty. The first argument bounds the number of
  iterations: the result is \<open>None\<close> if the stack is not empty after that many.\<close>

fun constructLoop :: "nat \<Rightarrow> scipenv \<Rightarrow> nlhdlrdata \<Rightarrow> bool \<Rightarrow> loopstate \<Rightarrow> loopstate option" where
  "constructLoop 0 env nd uninit ls = (if exprstackIsEmpty (cs ls) then Some ls else None)"
| "constructLoop (Suc fuel) env nd uninit ls =
     (if exprstackIsEmpty (cs ls) then Some ls
      else constructLoop fuel env nd uninit (constructStep env nd uninit ls))"

definition removeChildren :: "nat \<Rightarrow> cstate \<Rightarrow> cstate" where
  "removeChildren e s = s\<lparr>heap := (heap s)(e := (heap s e)\<lparr>children := []\<rparr>)\<rparr>"

text \<open>Modelled from the spec: the expression iterator (\<^verbatim>\<open>cons_expr_iterator.c\<close> is not among
  the sources). It walks the expression depth first and stops in the stage "visiting
  child" once for each child position \<open>i\<close> of each expression \<open>e\<close> it enters; an expression
  is entered at most once. \<open>removeMultivarLinear fuel e i\<close> runs the post-processing loop of
  \<^verbatim>\<open>constructExpr\<close> for the child positions \<open>i, i+1, \<dots>\<close> of \<open>e\<close>: a child that is a
  multivariate linear sum loses its children and is skipped, any other child is entered.
  The second component of the state lists the expressions already entered. The result is
  \<open>None\<close> if \<open>fuel\<close> nested calls do not suffice.\<close>

fun removeMultivarLinear :: "nat \<Rightarrow> nat \<Rightarrow> nat \<Rightarrow> cstate \<times> nat list \<Rightarrow> (cstate \<times> nat list) option" where
  "removeMultivarLinear 0 e i sv = None"
| "removeMultivarLinear (Suc fuel) e i sv =
     (if i \<ge> nchildren (fst sv) e then Some sv
      else
        (let child = children (heap (fst sv) e) ! i
         in if exprIsMultivarLinear (fst sv) child then
              removeMultivarLinear fuel e (Suc i) (removeChildren child (fst sv), snd sv)
            else if child \<in> set (snd sv) then removeMultivarLinear fuel e (Suc i) sv
            else
              (case removeMultivarLinear fuel child 0 sv of
                 None \<Rightarrow> None
               | Some sv1 \<Rightarrow> removeMultivarLinear fuel e (Suc i) (fst sv1, child # snd sv1))))"

text \<open>The test at the end of \<^verbatim>\<open>constructExpr\<close> whether the constructed expression is
  trivial.\<close>

definition isTrivial :: "nlhdlrdata \<Rightarrow> cstate \<Rightarrow> nat \<Rightarrow> bool" where
  "isTrivial nd s rootnlexpr =
     (if \<not> handletrivial nd \<or> isSum (kind (heap s rootnlexpr))
      then list_all (\<lambda>c. \<not> nchildren s c > 0) (children (heap s rootnlexpr))
      else \<not> nchildren s rootnlexpr > 0)"

text \<open>\<^verbatim>\<open>constructExpr\<close>. The result is the pointer \<^verbatim>\<open>*rootnlexpr\<close> (0 after the trivial
  expression has been released) and the final values of the loop variables; \<open>wantsuccess\<close>
  tells whether \<^verbatim>\<open>curvsuccess\<close> is not \<^verbatim>\<open>NULL\<close>.\<close>

definition constructExpr ::
    "nat \<Rightarrow> scipenv \<Rightarrow> nlhdlrdata \<Rightarrow> bool \<Rightarrow> nat \<Rightarrow> EXPRCURV \<Rightarrow> bool \<Rightarrow> cstate \<Rightarrow> (nat \<times> loopstate) option" where
  "constructExpr fuel env nd uninit rootexpr curv wantsuccess s =
     (case nlhdlrExprCreate rootexpr curv s of
        (rootnlexpr, s1) \<Rightarrow>
          (case constructLoop fuel env nd uninit
                  \<lparr>cs = exprstackPush [rootnlexpr] (s1\<lparr>stack := []\<rparr>), isrootexpr = True, nleafs = 0,
                   curvsuccess = (if wantsuccess then Some True else None)\<rparr> of
             None \<Rightarrow> None
           | Some ls \<Rightarrow>
               (case (if \<not> isnlhdlrconvex nd \<and> rootnlexpr \<noteq> 0
                      then removeMultivarLinear fuel rootnlexpr 0 (cs ls, [])
                      else Some (cs ls, [])) of
                  None \<Rightarrow> None
                | Some sv \<Rightarrow>
                    Some (if rootnlexpr \<noteq> 0 \<and> isTrivial nd (fst sv) rootnlexpr then 0 else rootnlexpr,
                          ls\<lparr>cs := fst sv\<rparr>))))"

subsection \<open>Collecting the leafs\<close>

text \<open>\<^verbatim>\<open>struct SCIP_ConsExpr_NlhdlrExprData\<close>.\<close>

record nlhdlrexprdata =
  nlexpr :: nat
  exprdata_nlexpr2origexpr :: "nat \<rightharpoonup> nat"
  exprdata_nleafs :: nat
  leafexprs :: "nat list"












subsection \<open>Estimators\<close>

text \<open>A row in preparation: the linear terms, the side, the side type and whether the row
  is only locally valid.\<close>

datatype SIDETYPE = SIDETYPE_LEFT | SIDETYPE_RIGHT

record rowprep =
  rowterms :: "(nat \<times> real) list"
  side :: real
  sidetype :: SIDETYPE
  local :: bool
  rowname :: string

definition createRowprep :: "SIDETYPE \<Rightarrow> bool \<Rightarrow> rowprep" where
  "createRowprep st loc = \<lparr>rowterms = [], side = 0, sidetype = st, local = loc, rowname = []\<rparr>"

definition addRowprepTerm :: "nat \<Rightarrow> real \<Rightarrow> rowprep \<Rightarrow> rowprep" where
  "addRowprepTerm var coef r = r\<lparr>rowterms := rowterms r @ [(var, coef)]\<rparr>"

text \<open>What the estimators use of SCIP: the numerical comparisons with their tolerances,
  the bounds of the variables, the solution \<^verbatim>\<open>sol\<close> to be separated, the evaluation of an
  expression in a solution (given as the values of the variables), its derivatives in
  \<^verbatim>\<open>sol\<close>, the integrality flag of an expression, the facet routine
  \<^verbatim>\<open>SCIPcomputeFacetVertexPolyhedral\<close> (which gets the function to evaluate, the point, the
  box, the target value, and returns success, coefficients and constant), whether
  \<^verbatim>\<open>SCIPaddConsExprExprsViolScore\<close> reports that it added scores, and the value of the
  auxiliary variable of the expression in \<^verbatim>\<open>sol\<close>.

  A \<^verbatim>\<open>SCIP_Real\<close> is a double. Its values are modelled by reals, and the arithmetic of the
  machine, which rounds, by the four operations \<open>dblAdd\<close>, \<open>dblSub\<close>, \<open>dblMul\<close> and \<open>dblDiv\<close>
  of the environment, so that every sum, difference, product and quotient that the C code
  computes is an application of one of them. Negation, absolute value, maximum and the
  comparisons are exact on doubles and are those of the reals. The double-double numbers of
  \<^verbatim>\<open>dbldblarith.h\<close> are pairs, with the macros \<^verbatim>\<open>QUAD_ASSIGN\<close>, \<^verbatim>\<open>SCIPquadprecSumQD\<close> and
  \<^verbatim>\<open>QUAD_TO_DBL\<close> as \<open>quadAssign\<close>, \<open>quadprecSumQD\<close> and \<open>quadToDbl\<close>.\<close>

record estenv =
  dblAdd :: "real \<Rightarrow> real \<Rightarrow> real"
  dblSub :: "real \<Rightarrow> real \<Rightarrow> real"
  dblMul :: "real \<Rightarrow> real \<Rightarrow> real"
  dblDiv :: "real \<Rightarrow> real \<Rightarrow> real"
  quadAssign :: "real \<Rightarrow> real \<times> real"
  quadprecSumQD :: "real \<times> real \<Rightarrow> real \<Rightarrow> real \<times> real"
  quadToDbl :: "real \<times> real \<Rightarrow> real"
  SCIPisInfinity :: "real \<Rightarrow> bool"
  SCIPisRelEQ :: "real \<Rightarrow> real \<Rightarrow> bool"
  SCIPisEQ :: "real \<Rightarrow> real \<Rightarrow> bool"
  SCIPisIntegral :: "real \<Rightarrow> bool"
  SCIPisZero :: "real \<Rightarrow> bool"
  SCIPround :: "real \<Rightarrow> real"
  SCIPfloor :: "real \<Rightarrow> real"
  SCIPceil :: "real \<Rightarrow> real"
  SCIPepsilon :: real
  SCIPinfinity :: real
  SCIP_INVALID :: real
  varLbLocal :: "nat \<Rightarrow> real"
  varUbLocal :: "nat \<Rightarrow> real"
  varLbGlobal :: "nat \<Rightarrow> real"
  solVal :: "nat \<Rightarrow> real"
  evalExpr :: "nat \<Rightarrow> (nat \<Rightarrow> real) \<Rightarrow> real"
  exprDerivative :: "nat \<Rightarrow> real"
  exprPartialDiff :: "nat \<Rightarrow> nat \<Rightarrow> real"
  exprIsIntegral :: "nat \<Rightarrow> bool"
  computeFacetVertexPolyhedral ::
    "bool \<Rightarrow> (real list \<Rightarrow> real) \<Rightarrow> real list \<Rightarrow> real list \<Rightarrow> nat \<Rightarrow> real \<Rightarrow> bool \<times> real list \<times> real"
  addViolScore :: "nat list \<Rightarrow> real \<Rightarrow> bool"
  auxvarVal :: real

text \<open>The state that outlives one call of an estimator: the data of the nonlinear handler
  with its solution \<^verbatim>\<open>evalsol\<close> (created on first use; \<open>nsols\<close> counts the solutions created
  so far and names the next one), the values stored in \<^verbatim>\<open>evalsol\<close>, the number of calls of
  the facet routine, entry 0 of the array \<^verbatim>\<open>rowpreps\<close> of the caller and the branching
  scores handed to the constraint handler.\<close>

record eststate =
  hdlrdata :: nlhdlrdata
  nsols :: nat
  evalsolvals :: "nat \<Rightarrow> real"
  facetcalls :: nat
  rowpreps :: "rowprep option"
  violscores :: "(nat list \<times> real) list"

text \<open>\<^verbatim>\<open>SCIPaddRowprepConstant\<close> moves a constant to the side of the row
  (\<^verbatim>\<open>rowprep->side -= constant\<close>).\<close>

definition addRowprepConstant :: "estenv \<Rightarrow> real \<Rightarrow> rowprep \<Rightarrow> rowprep" where
  "addRowprepConstant env c r = r\<lparr>side := dblSub env (side r) c\<rparr>"

definition exprVarVar :: "(nat \<Rightarrow> expr) \<Rightarrow> nat \<Rightarrow> nat" where
  "exprVarVar hp e = (case kind (hp e) of Var v \<Rightarrow> v | _ \<Rightarrow> 0)"

definition ensureEvalsol :: "eststate \<Rightarrow> eststate" where
  "ensureEvalsol st =
     (if evalsol (hdlrdata st) = None
      then st\<lparr>hdlrdata := (hdlrdata st)\<lparr>evalsol := Some (nsols st)\<rparr>, nsols := Suc (nsols st)\<rparr>
      else st)"

text \<open>\<^verbatim>\<open>nlhdlrExprEvalConcave\<close>: the function handed to the facet routine stores the
  arguments as values of the leaf variables in \<^verbatim>\<open>evalsol\<close> and evaluates the
  nlhdlr-expression there.\<close>

definition nlhdlrExprEvalConcave ::
    "estenv \<Rightarrow> (nat \<Rightarrow> expr) \<Rightarrow> nlhdlrexprdata \<Rightarrow> (nat \<Rightarrow> real) \<Rightarrow> real list \<Rightarrow> real" where
  "nlhdlrExprEvalConcave env hp d vals args =
     evalExpr env (nlexpr d)
       (foldl (\<lambda>v i. v(exprVarVar hp (leafexprs d ! i) := args ! i)) vals [0 ..< length args])"

text \<open>The loop of \<^verbatim>\<open>estimateVertexPolyhedral\<close> over the leafs: \<open>None\<close> where the code jumps
  to \<^verbatim>\<open>TERMINATE\<close> because of an infinite bound, otherwise \<open>xstar\<close>, \<open>box\<close> and \<open>allfixed\<close>.\<close>

fun vertexPolyhedralBox ::
    "estenv \<Rightarrow> (nat \<Rightarrow> expr) \<Rightarrow> bool \<Rightarrow> nat list \<Rightarrow> real list \<times> real list \<times> bool
       \<Rightarrow> (real list \<times> real list \<times> bool) option" where
  "vertexPolyhedralBox env hp usemidpoint [] acc = Some acc"
| "vertexPolyhedralBox env hp usemidpoint (leaf # leafs) (xstar, box, allfixed) =
     (let var = exprVarVar hp leaf;
          lb = varLbLocal env var;
          ub = varUbLocal env var
      in if SCIPisInfinity env (- lb) then None
         else if SCIPisInfinity env ub then None
         else vertexPolyhedralBox env hp usemidpoint leafs
                (xstar @ [if usemidpoint then dblMul env 0.5 (dblAdd env lb ub) else solVal env var],
                 box @ [lb, ub],
                 if \<not> SCIPisRelEQ env lb ub then False else allfixed))"

text \<open>\<^verbatim>\<open>estimateVertexPolyhedral\<close> returns \<^verbatim>\<open>success\<close>, the row and the new state.\<close>

definition estimateVertexPolyhedral ::
    "estenv \<Rightarrow> (nat \<Rightarrow> expr) \<Rightarrow> nlhdlrexprdata \<Rightarrow> bool \<Rightarrow> bool \<Rightarrow> real \<Rightarrow> rowprep \<Rightarrow> eststate
       \<Rightarrow> bool \<times> rowprep \<times> eststate" where
  "estimateVertexPolyhedral env hp d usemidpoint overestimate targetvalue row st =
     (let st1 = ensureEvalsol st
      in case vertexPolyhedralBox env hp usemidpoint (take (exprdata_nleafs d) (leafexprs d)) ([], [], True) of
           None \<Rightarrow> (False, row, st1)
         | Some (xstar, box, allfixed) \<Rightarrow>
             if allfixed then (False, row, st1)
             else
               (case computeFacetVertexPolyhedral env overestimate
                       (nlhdlrExprEvalConcave env hp d (evalsolvals st1)) xstar box (exprdata_nleafs d)
                       targetvalue of
                  (success, coefs, facetconstant) \<Rightarrow>
                    if \<not> success then (False, row, st1\<lparr>facetcalls := Suc (facetcalls st1)\<rparr>)
                    else
                      (True,
                       row\<lparr>local := True, side := - facetconstant,
                           rowterms := zip (map (exprVarVar hp) (take (exprdata_nleafs d) (leafexprs d))) coefs\<rparr>,
                       st1\<lparr>facetcalls := Suc (facetcalls st1)\<rparr>)))"

text \<open>The loop of \<^verbatim>\<open>estimateGradient\<close> over the leafs: \<open>None\<close> where a partial derivative
  is invalid, otherwise the row and the constant, a double-double number.\<close>

fun gradientTerms ::
    "estenv \<Rightarrow> (nat \<Rightarrow> expr) \<Rightarrow> nat \<Rightarrow> nat list \<Rightarrow> rowprep \<times> (real \<times> real)
       \<Rightarrow> (rowprep \<times> (real \<times> real)) option" where
  "gradientTerms env hp e [] acc = Some acc"
| "gradientTerms env hp e (leaf # leafs) (row, constant) =
     (let var = exprVarVar hp leaf;
          deriv = exprPartialDiff env e var
      in if deriv = SCIP_INVALID env then None
         else gradientTerms env hp e leafs
                (addRowprepTerm var deriv row,
                 quadprecSumQD env constant (dblMul env (- deriv) (solVal env var))))"

definition estimateGradient ::
    "estenv \<Rightarrow> (nat \<Rightarrow> expr) \<Rightarrow> nlhdlrexprdata \<Rightarrow> real \<Rightarrow> rowprep \<Rightarrow> bool \<times> rowprep" where
  "estimateGradient env hp d auxvalue row =
     (if auxvalue = SCIP_INVALID env then (False, row)
      else if exprDerivative env (nlexpr d) = SCIP_INVALID env then (False, row)
      else
        (case gradientTerms env hp (nlexpr d) (take (exprdata_nleafs d) (leafexprs d))
                (row, quadAssign env (evalExpr env (nlexpr d) (solVal env))) of
           None \<Rightarrow> (False, row)
         | Some (row1, constant) \<Rightarrow>
             (True, (addRowprepConstant env (quadToDbl env constant) row1)\<lparr>local := False\<rparr>)))"

text \<open>The choice of the two integer points in \<^verbatim>\<open>estimateConvexSecant\<close>.\<close>

definition secantLeftRight :: "estenv \<Rightarrow> nat \<Rightarrow> real \<Rightarrow> real \<times> real" where
  "secantLeftRight env var x =
     (if SCIPisIntegral env x then
        (if SCIPisEQ env (SCIPround env x) (varLbGlobal env var)
         then (SCIPround env x, dblAdd env (SCIPround env x) 1)
         else (dblSub env (SCIPround env x) 1, SCIPround env x))
      else (SCIPfloor env x, SCIPceil env x))"

definition estimateConvexSecant ::
    "estenv \<Rightarrow> (nat \<Rightarrow> expr) \<Rightarrow> nlhdlrexprdata \<Rightarrow> rowprep \<Rightarrow> eststate \<Rightarrow> bool \<times> rowprep \<times> eststate" where
  "estimateConvexSecant env hp d row st =
     (let var = exprVarVar hp (leafexprs d ! 0);
          x = solVal env var;
          left = fst (secantLeftRight env var x);
          right = snd (secantLeftRight env var x);
          st1 = ensureEvalsol st;
          st2 = st1\<lparr>evalsolvals := (evalsolvals st1)(var := left)\<rparr>;
          fleft = evalExpr env (nlexpr d) (evalsolvals st2)
      in if SCIPisInfinity env \<bar>fleft\<bar> then (False, row, st2)
         else
           (let st3 = st2\<lparr>evalsolvals := (evalsolvals st2)(var := right)\<rparr>;
                fright = evalExpr env (nlexpr d) (evalsolvals st3)
            in if SCIPisInfinity env \<bar>fright\<bar> then (False, row, st3)
               else if (\<not> SCIPisZero env fleft
                          \<and> dblMul env \<bar>dblDiv env fright fleft\<bar> (SCIPepsilon env) > 1)
                     \<or> (\<not> SCIPisZero env fright
                          \<and> dblMul env \<bar>dblDiv env fleft fright\<bar> (SCIPepsilon env) > 1)
               then (False, row, st3)
               else
                 (True,
                  (addRowprepConstant env (dblSub env fleft (dblMul env (dblSub env fright fleft) left))
                     (addRowprepTerm var (dblSub env fright fleft) row))\<lparr>local := False\<rparr>,
                  st3)))"

text \<open>The estimator callback of the convex handler returns \<^verbatim>\<open>success\<close>,
  \<^verbatim>\<open>addedbranchscores\<close> and the new state. The names of the rows are kept without the
  address of the expression and the index of the solution.\<close>

definition nlhdlrEstimateConvex ::
    "estenv \<Rightarrow> (nat \<Rightarrow> expr) \<Rightarrow> nlhdlrexprdata \<Rightarrow> real \<Rightarrow> bool \<Rightarrow> eststate \<Rightarrow> bool \<times> bool \<times> eststate" where
  "nlhdlrEstimateConvex env hp d auxvalue overestimate st =
     (let curv = curvature (hp (nlexpr d))
      in if (overestimate \<and> curv = EXPRCURV_CONVEX) \<or> (\<not> overestimate \<and> curv = EXPRCURV_CONCAVE)
         then (False, False, st)
         else
           (let row0 = createRowprep (if overestimate then SIDETYPE_LEFT else SIDETYPE_RIGHT) True;
                prefix = (if overestimate then ''over'' else ''under'');
                r1 = (if exprdata_nleafs d = 1 \<and> exprIsIntegral env (leafexprs d ! 0)
                      then (case estimateConvexSecant env hp d row0 st of
                              (success, row, st1) \<Rightarrow>
                                (success, row\<lparr>rowname := prefix @ ''estimate_convexsecant''\<rparr>, st1))
                      else (False, row0, st));
                r2 = (if \<not> fst r1
                      then (case estimateGradient env hp d auxvalue (fst (snd r1)) of
                              (success, row) \<Rightarrow>
                                (success, row\<lparr>rowname := prefix @ ''estimate_convexgradient''\<rparr>, snd (snd r1)))
                      else r1)
            in if fst r2 then (True, False, (snd (snd r2))\<lparr>rowpreps := Some (fst (snd r2))\<rparr>)
               else (False, False, snd (snd r2))))"

text \<open>The estimator callback of the concave handler; \<open>origleafs\<close> are the images of the
  leafs in the hashmap of the expression data.\<close>

definition nlhdlrEstimateConcave ::
    "estenv \<Rightarrow> (nat \<Rightarrow> expr) \<Rightarrow> nlhdlrexprdata \<Rightarrow> real \<Rightarrow> bool \<Rightarrow> real \<Rightarrow> bool \<Rightarrow> eststate
       \<Rightarrow> bool \<times> bool \<times> eststate" where
  "nlhdlrEstimateConcave env hp d auxvalue overestimate targetvalue addbranchscores st =
     (let curv = curvature (hp (nlexpr d))
      in if (overestimate \<and> curv = EXPRCURV_CONCAVE) \<or> (\<not> overestimate \<and> curv = EXPRCURV_CONVEX)
         then (False, False, st)
         else
           (case estimateVertexPolyhedral env hp d False overestimate targetvalue
                   (createRowprep (if overestimate then SIDETYPE_LEFT else SIDETYPE_RIGHT) True) st of
              (success, row, st1) \<Rightarrow>
                (let st2 = (if success
                            then st1\<lparr>rowpreps := Some (row\<lparr>rowname :=
                                   (if overestimate then ''over'' else ''under'') @ ''estimate_concave''\<rparr>)\<rparr>
                            else st1)
                 in if addbranchscores then
                      (let violation =
                             (if auxvalue = SCIP_INVALID env then SCIPinfinity env
                              else if \<not> overestimate then max 0 (dblSub env auxvalue (auxvarVal env))
                              else max 0 (dblSub env (auxvarVal env) auxvalue));
                           origleafs = map (hashmapGetImage (exprdata_nlexpr2origexpr d))
                                         (take (exprdata_nleafs d) (leafexprs d))
                       in (success, addViolScore env origleafs violation,
                           st2\<lparr>violscores := violscores st2 @ [(origleafs, violation)]\<rparr>))
                    else (success, False, st2))))"

subsection \<open>Detection by the concave handler\<close>


text \<open>The result of a detection callback.\<close>

record detection =
  success :: bool
  enforcedbelow :: bool
  enforcedabove :: bool
  sepabelow :: bool
  sepaabove :: bool
  exprdata :: "nlhdlrexprdata option"
  dstate :: cstate
  dnvars :: nat


subsection \<open>Predicates used in the statements\<close>



text \<open>One pass of the loop of \<^verbatim>\<open>nlhdlrExprGrowChildren\<close>.\<close>

definition growOne :: "nat \<Rightarrow> nat \<Rightarrow> EXPRCURV \<Rightarrow> cstate \<Rightarrow> cstate" where
  "growOne n oc c s = appendExpr n (fst (nlhdlrExprCreate oc c s)) (snd (nlhdlrExprCreate oc c s))"

text \<open>The states of the construction for a sum \<open>a\<close> of two variables \<open>x\<close> and \<open>y\<close> after the
  root has been visited: either the root is a leaf and the stack is empty, or (in the
  convex handler only) it has got its two children, which are on the stack.\<close>

definition bareSumVisited :: "nat \<Rightarrow> nat \<Rightarrow> nat \<Rightarrow> bool \<Rightarrow> cstate \<Rightarrow> bool" where
  "bareSumVisited a x y isconvex s =
     (isSum (kind (heap s a))
      \<and> children (heap s x) = [] \<and> children (heap s y) = []
      \<and> isVar (kind (heap s x)) \<and> isVar (kind (heap s y))
      \<and> ((children (heap s a) = [] \<and> stack s = [])
          \<or> (children (heap s a) = [x, y] \<and> stack s = [x, y]
              \<and> nlexpr2origexpr s x = Some x \<and> nlexpr2origexpr s y = Some y \<and> isconvex)))"

text \<open>The children that \<^verbatim>\<open>nlhdlrExprGrowChildren\<close> gives to an nlhdlr-expression, for the
  store \<open>hp\<close>, the list of the children of the original expression and the allocation pointer
  \<open>a\<close>: a child of the original that has no children is its own copy, and any other child
  is copied to the next free address. \<open>isleaf\<close> tells whether an expression of the store has
  no children.\<close>

definition isleaf :: "(nat \<Rightarrow> expr) \<Rightarrow> nat \<Rightarrow> bool" where
  "isleaf hp e = (children (hp e) = [])"

fun growAddrs :: "(nat \<Rightarrow> expr) \<Rightarrow> nat list \<Rightarrow> nat \<Rightarrow> nat list" where
  "growAddrs hp [] a = []"
| "growAddrs hp (oc # ocs) a =
     (if isleaf hp oc then oc # growAddrs hp ocs a else a # growAddrs hp ocs (Suc a))"


subsection \<open>Example inputs\<close>

definition leafexpr :: "nat \<Rightarrow> expr" where
  "leafexpr v = \<lparr>kind = Var v, children = [], curvature = EXPRCURV_UNKNOWN, auxvar = None\<rparr>"

text \<open>The square of the variable 1: the variable expression at address 1, the original
  power at address 3 and its copy, with curvature \<open>c\<close>, at address 4; every other address
  holds a variable expression.\<close>

definition hp_square :: "EXPRCURV \<Rightarrow> nat \<Rightarrow> expr" where
  "hp_square c = leafexpr(3 := \<lparr>kind = Power 2, children = [1], curvature = EXPRCURV_UNKNOWN, auxvar = None\<rparr>,
                          4 := \<lparr>kind = Power 2, children = [1], curvature = c, auxvar = None\<rparr>)"

definition d_square :: nlhdlrexprdata where
  "d_square = \<lparr>nlexpr = 4, exprdata_nlexpr2origexpr = [1 \<mapsto> 1, 4 \<mapsto> 3], exprdata_nleafs = 1, leafexprs = [1]\<rparr>"

text \<open>An environment for the estimators: the comparisons of SCIP with tolerance \<open>1e-9\<close>
  and infinity \<open>1e20\<close>, all variables in \<open>[0, 10]\<close> except variable 99, which has no upper
  bound, the solution with value 2.7 for every variable, and the function that squares
  the value of variable 1, with derivative 5.4 there. The arithmetic of this environment
  does not round. The coefficients and sides that the examples state are sums, differences
  and products of integers below \<open>2^53\<close>, which the arithmetic of doubles computes without
  rounding as well; the quotients of the examples are only compared with 1, from which they
  are far away.\<close>

definition eenv :: estenv where
  "eenv = \<lparr>dblAdd = (\<lambda>a b. a + b), dblSub = (\<lambda>a b. a - b), dblMul = (\<lambda>a b. a * b),
     dblDiv = (\<lambda>a b. a / b),
     quadAssign = (\<lambda>v. (v, 0)),
     quadprecSumQD = (\<lambda>q b. (fst q + b, snd q)),
     quadToDbl = (\<lambda>q. fst q + snd q),
     SCIPisInfinity = (\<lambda>v. v \<ge> 10^20),
     SCIPisRelEQ = (\<lambda>a b. \<bar>a - b\<bar> \<le> max 1 (max \<bar>a\<bar> \<bar>b\<bar>) / 10^9),
     SCIPisEQ = (\<lambda>a b. \<bar>a - b\<bar> \<le> 1 / 10^9),
     SCIPisIntegral = (\<lambda>x. x - of_int \<lfloor>x + 1 / 10^9\<rfloor> \<le> 1 / 10^9),
     SCIPisZero = (\<lambda>x. \<bar>x\<bar> \<le> 1 / 10^9),
     SCIPround = (\<lambda>x. of_int \<lceil>x - 1 / 2\<rceil>),
     SCIPfloor = (\<lambda>x. of_int \<lfloor>x + 1 / 10^9\<rfloor>),
     SCIPceil = (\<lambda>x. of_int \<lceil>x - 1 / 10^9\<rceil>),
     SCIPepsilon = 1 / 10^9,
     SCIPinfinity = 10^20,
     SCIP_INVALID = 10^99,
     varLbLocal = (\<lambda>v. 0),
     varUbLocal = (\<lambda>v. if v = 99 then 10^20 else 10),
     varLbGlobal = (\<lambda>v. 0),
     solVal = (\<lambda>v. 27 / 10),
     evalExpr = (\<lambda>e vals. (vals 1)^2),
     exprDerivative = (\<lambda>e. 1),
     exprPartialDiff = (\<lambda>e v. 27 / 5),
     exprIsIntegral = (\<lambda>e. True),
     computeFacetVertexPolyhedral = (\<lambda>over f xstar box n target. (True, replicate n 10, 0)),
     addViolScore = (\<lambda>es v. True),
     auxvarVal = 9\<rparr>"

text \<open>The state before the first call of an estimator of the convex (\<open>True\<close>) or the
  concave handler, with their default parameters.\<close>

definition est0 :: "bool \<Rightarrow> eststate" where
  "est0 isconvex =
     \<lparr>hdlrdata = \<lparr>isnlhdlrconvex = isconvex, evalsol = None, detectsum = False,
                  preferextended = isconvex, cvxquadratic = isconvex, cvxsignomial = True,
                  cvxprodcomp = True, handletrivial = False\<rparr>,
      nsols = 0, evalsolvals = (\<lambda>v. 0), facetcalls = 0, rowpreps = None, violscores = []\<rparr>"



text \<open>The environment \<open>eenv\<close> with a function that is too steep for a secant: its value is
  \<open>10^12\<close> where variable 1 is 0 and 0.99998 elsewhere; the solution has value 0.5 and the
  derivative there is -3.\<close>

definition eenv_steep :: estenv where
  "eenv_steep = eenv\<lparr>solVal := (\<lambda>v. 1 / 2),
     evalExpr := (\<lambda>e vals. if vals 1 = 0 then 10^12 else 99998 / 100000),
     exprPartialDiff := (\<lambda>e v. - 3)\<rparr>"

text \<open>A store of original expressions over the variables x, y, z (at the addresses 24, 25
  and 26): x + y (4), exp(2x) x (7), 4 x^2 + 3 y^2 + 2 x y (11), sqrt(y+z) sqrt(x) (15),
  sqrt(log x) (17), u(x) for an expression handler u of a user, without backward
  differentiation (18), exp(x^2 + log y) (23), and x^2 + 3 with the value expression 3 (at
  address 27) as second summand (28). Every other address holds a variable expression. The
  allocation pointer is at 30.\<close>

definition mkexpr :: "exprkind \<Rightarrow> nat list \<Rightarrow> expr" where
  "mkexpr k chs = \<lparr>kind = k, children = chs, curvature = EXPRCURV_UNKNOWN, auxvar = None\<rparr>"

definition xheap :: "nat \<Rightarrow> expr" where
  "xheap = (\<lambda>a. mkexpr (Var a) [])
     (4 := mkexpr (Sum [1, 1] 0) [24, 25],
      5 := mkexpr (Sum [2] 0) [24],
      6 := mkexpr (Other ''exp'') [5],
      7 := mkexpr (Product 1) [6, 24],
      8 := mkexpr (Power 2) [24],
      9 := mkexpr (Power 2) [25],
      10 := mkexpr (Product 1) [24, 25],
      11 := mkexpr (Sum [4, 3, 2] 0) [8, 9, 10],
      12 := mkexpr (Sum [1, 1] 0) [25, 26],
      13 := mkexpr (Power (1 / 2)) [12],
      14 := mkexpr (Power (1 / 2)) [24],
      15 := mkexpr (Product 1) [13, 14],
      16 := mkexpr (Other ''log'') [24],
      17 := mkexpr (Power (1 / 2)) [16],
      18 := mkexpr (Other ''user'') [24],
      21 := mkexpr (Other ''log'') [25],
      22 := mkexpr (Sum [1, 1] 0) [8, 21],
      23 := mkexpr (Other ''exp'') [22],
      27 := mkexpr (Value 3) [],
      28 := mkexpr (Sum [1, 1] 0) [8, 27])"

definition xstate :: cstate where
  "xstate = \<lparr>heap = xheap, nextaddr = 30, nlexpr2origexpr = Map.empty, stack = []\<rparr>"

text \<open>An environment for the detection on this store: all variables and sums have
  activity \<open>[1, 5]\<close> and the exponentials are positive; exp and log are increasing; a
  variable and a sum of this store can have any curvature (a sum asks it of its
  summands), exp and u are convex for a convex argument, log and the square root are
  concave for a concave argument, a square is convex for a linear argument, and the
  products have no curvature by themselves; a monomial with exponents \<open>(0.5, 0.5)\<close> is
  concave for concave factors; the quadratic (11) has two square and one bilinear term
  and is convex.\<close>

definition senv :: scipenv where
  "senv = \<lparr>
     exprActivity = (\<lambda>e. if e = 6 \<or> e = 23 then (7, 22027) else (1, 5)),
     exprMonotonicity = (\<lambda>e. if e \<in> {6, 16, 21, 23} then MONOTONE_INC else MONOTONE_UNKNOWN),
     curvatureExprHdlr = (\<lambda>e c.
        if e \<in> {6, 23, 18} then (c = EXPRCURV_CONVEX, \<lambda>i. EXPRCURV_CONVEX)
        else if e \<in> {16, 21, 13, 14, 17} then (c = EXPRCURV_CONCAVE, \<lambda>i. EXPRCURV_CONCAVE)
        else if e \<in> {8, 9} then (c = EXPRCURV_CONVEX, \<lambda>i. EXPRCURV_LINEAR)
        else if e \<in> {7, 10, 15} then (False, \<lambda>i. EXPRCURV_UNKNOWN)
        else (True, \<lambda>i. c)),
     exprcurvMultiply = (\<lambda>f c.
        if f = 0 then EXPRCURV_LINEAR
        else if f > 0 then c
        else (case c of EXPRCURV_CONVEX \<Rightarrow> EXPRCURV_CONCAVE | EXPRCURV_CONCAVE \<Rightarrow> EXPRCURV_CONVEX | _ \<Rightarrow> c)),
     exprcurvMonomialInv = (\<lambda>c exps bnds.
        if c = EXPRCURV_CONCAVE \<and> exps = [1 / 2, 1 / 2] then Some (\<lambda>i. EXPRCURV_CONCAVE) else None),
     getQuadratic = (\<lambda>e. if e = 11 then Some (2, 1) else None),
     getQuadraticCurvature = (\<lambda>e. if e = 11 then EXPRCURV_CONVEX else EXPRCURV_UNKNOWN),
     hasBwdiff = (\<lambda>k. k \<noteq> Other ''user'')\<rparr>"

text \<open>The data of the convex (\<open>True\<close>) or the concave handler with their default parameters,
  and with the given value of the parameter \<^verbatim>\<open>handletrivial\<close>.\<close>

definition ndata :: "bool \<Rightarrow> bool \<Rightarrow> nlhdlrdata" where
  "ndata isconvex trivial =
     \<lparr>isnlhdlrconvex = isconvex, evalsol = None, detectsum = False,
      preferextended = isconvex, cvxquadratic = isconvex, cvxsignomial = True,
      cvxprodcomp = True, handletrivial = trivial\<rparr>"

text \<open>The state after \<^verbatim>\<open>nlhdlrExprCreate\<close> has created the root for the original expression
  \<open>e\<close> of this store, with curvature \<open>c\<close>; the root is the expression at address 30.\<close>

definition xroot :: "nat \<Rightarrow> EXPRCURV \<Rightarrow> cstate" where
  "xroot e c = snd (nlhdlrExprCreate e c xstate)"




section \<open>Properties\<close>

subsection \<open>Estimation on the wrong side\<close>

text \<open>
  Claim C10, as amended. The estimate callback of the convex handler does nothing when
  overestimation is requested and the curvature of the nlhdlr-expression is convex, or
  underestimation is requested and it is concave. The estimate callback of the concave
  handler does nothing on the opposite combinations: overestimation of a concave, or
  underestimation of a convex nlhdlr-expression. In these cases the callback returns
  \<^verbatim>\<open>success = FALSE\<close> and \<^verbatim>\<open>addedbranchscores = FALSE\<close> and leaves the state as it was:
  no row is stored and no branching score is added.
\<close>

theorem estimate_wrong_side:
  "((overestimate \<and> curvature (hp (nlexpr d)) = EXPRCURV_CONVEX) \<or>
    (\<not> overestimate \<and> curvature (hp (nlexpr d)) = EXPRCURV_CONCAVE)
      \<longrightarrow> nlhdlrEstimateConvex env hp d auxvalue overestimate st = (False, False, st))
   \<and> ((overestimate \<and> curvature (hp (nlexpr d)) = EXPRCURV_CONCAVE) \<or>
       (\<not> overestimate \<and> curvature (hp (nlexpr d)) = EXPRCURV_CONVEX)
      \<longrightarrow> nlhdlrEstimateConcave env hp d auxvalue overestimate targetvalue addbranchscores st
            = (False, False, st))"
  by (simp add: nlhdlrEstimateConvex_def nlhdlrEstimateConcave_def)

text \<open>The theorem at the square of a variable: the convex handler asked to overestimate
  the convex copy, the concave handler asked to underestimate it.\<close>

theorem estimate_wrong_side_witness:
  "nlhdlrEstimateConvex eenv (hp_square EXPRCURV_CONVEX) d_square 0 True (est0 True)
     = (False, False, est0 True)
   \<and> nlhdlrEstimateConcave eenv (hp_square EXPRCURV_CONVEX) d_square 0 False 0 True (est0 False)
     = (False, False, est0 False)"
  using estimate_wrong_side [of True "hp_square EXPRCURV_CONVEX" d_square eenv 0 "est0 True"]
        estimate_wrong_side [of False "hp_square EXPRCURV_CONVEX" d_square eenv 0 "est0 False" 0 True]
  by (simp add: hp_square_def d_square_def)

text \<open>The claim as stated fails for the concave handler: asked to overestimate a convex
  nlhdlr-expression, with branching scores wanted, it computes a facet, stores the row and
  adds a branching score.\<close>

theorem estimate_wrong_side_counterexample:
  "curvature (hp_square EXPRCURV_CONVEX (nlexpr d_square)) = EXPRCURV_CONVEX
   \<and> fst (nlhdlrEstimateConcave eenv (hp_square EXPRCURV_CONVEX) d_square 0 True 0 True (est0 False)) = True
   \<and> fst (snd (nlhdlrEstimateConcave eenv (hp_square EXPRCURV_CONVEX) d_square 0 True 0 True (est0 False))) = True
   \<and> map_option rowterms
       (rowpreps (snd (snd (nlhdlrEstimateConcave eenv (hp_square EXPRCURV_CONVEX) d_square 0 True 0 True (est0 False)))))
       = Some [(1, 10)]
   \<and> violscores (snd (snd (nlhdlrEstimateConcave eenv (hp_square EXPRCURV_CONVEX) d_square 0 True 0 True (est0 False))))
       = [([1], 9)]"
  by (simp add: nlhdlrEstimateConcave_def hp_square_def d_square_def eenv_def est0_def
      estimateVertexPolyhedral_def ensureEvalsol_def exprVarVar_def leafexpr_def createRowprep_def
      hashmapGetImage_def)

subsection \<open>Example inputs, evaluated\<close>

lemma xheap_simps:
  "xheap 24 = mkexpr (Var 24) []" "xheap 25 = mkexpr (Var 25) []" "xheap 26 = mkexpr (Var 26) []"
  "xheap 4 = mkexpr (Sum [1, 1] 0) [24, 25]"
  "xheap 5 = mkexpr (Sum [2] 0) [24]"
  "xheap 6 = mkexpr (Other ''exp'') [5]"
  "xheap 7 = mkexpr (Product 1) [6, 24]"
  "xheap 8 = mkexpr (Power 2) [24]"
  "xheap 9 = mkexpr (Power 2) [25]"
  "xheap 10 = mkexpr (Product 1) [24, 25]"
  "xheap 11 = mkexpr (Sum [4, 3, 2] 0) [8, 9, 10]"
  "xheap 12 = mkexpr (Sum [1, 1] 0) [25, 26]"
  "xheap 13 = mkexpr (Power (1 / 2)) [12]"
  "xheap 14 = mkexpr (Power (1 / 2)) [24]"
  "xheap 15 = mkexpr (Product 1) [13, 14]"
  "xheap 16 = mkexpr (Other ''log'') [24]"
  "xheap 17 = mkexpr (Power (1 / 2)) [16]"
  "xheap 18 = mkexpr (Other ''user'') [24]"
  "xheap 21 = mkexpr (Other ''log'') [25]"
  "xheap 22 = mkexpr (Sum [1, 1] 0) [8, 21]"
  "xheap 23 = mkexpr (Other ''exp'') [22]"
  "xheap 27 = mkexpr (Value 3) []"
  "xheap 28 = mkexpr (Sum [1, 1] 0) [8, 27]"
  by (simp_all add: xheap_def)

lemma mkexpr_simps:
  "kind (mkexpr k chs) = k" "children (mkexpr k chs) = chs"
  "curvature (mkexpr k chs) = EXPRCURV_UNKNOWN" "auxvar (mkexpr k chs) = None"
  by (simp_all add: mkexpr_def)

lemma senv_simps:
  "exprActivity senv e = (if e = 6 \<or> e = 23 then (7, 22027) else (1, 5))"
  "exprMonotonicity senv e = (if e \<in> {6, 16, 21, 23} then MONOTONE_INC else MONOTONE_UNKNOWN)"
  "curvatureExprHdlr senv e c =
       (if e \<in> {6, 23, 18} then (c = EXPRCURV_CONVEX, \<lambda>i. EXPRCURV_CONVEX)
        else if e \<in> {16, 21, 13, 14, 17} then (c = EXPRCURV_CONCAVE, \<lambda>i. EXPRCURV_CONCAVE)
        else if e \<in> {8, 9} then (c = EXPRCURV_CONVEX, \<lambda>i. EXPRCURV_LINEAR)
        else if e \<in> {7, 10, 15} then (False, \<lambda>i. EXPRCURV_UNKNOWN)
        else (True, \<lambda>i. c))"
  "exprcurvMultiply senv f c =
       (if f = 0 then EXPRCURV_LINEAR
        else if f > 0 then c
        else (case c of EXPRCURV_CONVEX \<Rightarrow> EXPRCURV_CONCAVE | EXPRCURV_CONCAVE \<Rightarrow> EXPRCURV_CONVEX | _ \<Rightarrow> c))"
  "exprcurvMonomialInv senv c exps bnds =
       (if c = EXPRCURV_CONCAVE \<and> exps = [1 / 2, 1 / 2] then Some (\<lambda>i. EXPRCURV_CONCAVE) else None)"
  "getQuadratic senv e = (if e = 11 then Some (2, 1) else None)"
  "getQuadraticCurvature senv e = (if e = 11 then EXPRCURV_CONVEX else EXPRCURV_UNKNOWN)"
  "hasBwdiff senv k = (k \<noteq> Other ''user'')"
  by (simp_all add: senv_def)

lemma ndata_simps:
  "isnlhdlrconvex (ndata c t) = c" "detectsum (ndata c t) = False" "preferextended (ndata c t) = c"
  "cvxquadratic (ndata c t) = c" "cvxsignomial (ndata c t) = True" "cvxprodcomp (ndata c t) = True"
  "handletrivial (ndata c t) = t"
  by (simp_all add: ndata_def)

lemmas ex_simps = xheap_simps mkexpr_simps senv_simps ndata_simps

text \<open>The definitions of the construction, for the evaluation of examples, and the
  equations that run the loops on a numeral.\<close>

lemmas construct_defs =
  constructExpr_def nlhdlrExprCreate_def nchildren_def exprstackPush_def exprstackPop_def
  exprstackIsEmpty_def constructStep_def constructVisit_def CURVCHECKS_def
  curvCheckProductComposite_def curvCheckSignomial_def curvCheckQuadratic_def curvCheckExprhdlr_def
  productCompositeMatch_def productCompositeConditions_def productCompositeGrow_def
  signomialChild_def signomialExponent_def signomialBounds_def quadraticChild_def
  isProduct_def isSum_def isPower_def isVar_def isValue_def PowExponent_def ProductCoef_def SumCoefs_def
  hashmapGetImage_def isTrivial_def exprIsMultivarLinear_def removeChildren_def
  nlhdlrExprGrowChildren_def appendExpr_def setCurvature_def Let_def

lemma constructLoop_numeral:
  "constructLoop (numeral k) env nd uninit ls =
     (if exprstackIsEmpty (cs ls) then Some ls
      else constructLoop (pred_numeral k) env nd uninit (constructStep env nd uninit ls))"
  by (simp add: numeral_eq_Suc)

lemma removeMultivarLinear_numeral:
  "removeMultivarLinear (numeral k) e i sv =
     (if i \<ge> nchildren (fst sv) e then Some sv
      else
        (let child = children (heap (fst sv) e) ! i
         in if exprIsMultivarLinear (fst sv) child then
              removeMultivarLinear (pred_numeral k) e (Suc i) (removeChildren child (fst sv), snd sv)
            else if child \<in> set (snd sv) then removeMultivarLinear (pred_numeral k) e (Suc i) sv
            else
              (case removeMultivarLinear (pred_numeral k) child 0 sv of
                 None \<Rightarrow> None
               | Some sv1 \<Rightarrow> removeMultivarLinear (pred_numeral k) e (Suc i) (fst sv1, child # snd sv1))))"
  by (simp add: numeral_eq_Suc)

lemmas run_simps = construct_defs ex_simps xstate_def constructLoop_numeral removeMultivarLinear_numeral

lemma eenv_simps:
  "SCIPisInfinity eenv v = (v \<ge> 10^20)"
  "SCIPisIntegral eenv x = (x - of_int \<lfloor>x + 1 / 10^9\<rfloor> \<le> 1 / 10^9)"
  "SCIPisZero eenv x = (\<bar>x\<bar> \<le> 1 / 10^9)"
  "SCIPfloor eenv x = of_int \<lfloor>x + 1 / 10^9\<rfloor>"
  "SCIPceil eenv x = of_int \<lceil>x - 1 / 10^9\<rceil>"
  "SCIPepsilon eenv = 1 / 10^9"
  "solVal eenv v' = 27 / 10"
  "evalExpr eenv e vals = (vals 1)^2"
  "exprIsIntegral eenv e = True"
  by (simp_all add: eenv_def)

lemma square_simps:
  "exprVarVar (hp_square c) (leafexprs d_square ! 0) = 1"
  "curvature (hp_square c 4) = c"
  "exprdata_nleafs d_square = 1"
  "nlexpr d_square = 4"
  by (simp_all add: hp_square_def d_square_def exprVarVar_def leafexpr_def)

subsection \<open>The vertex-polyhedral estimator\<close>


















subsection \<open>The secant of the convex handler\<close>

lemma evalsolvals_ensureEvalsol: "evalsolvals (ensureEvalsol st) = evalsolvals st"
  by (simp add: ensureEvalsol_def)

lemma rowpreps_ensureEvalsol: "rowpreps (ensureEvalsol st) = rowpreps st"
  by (simp add: ensureEvalsol_def)

lemma estimateConvexSecant_cases:
  assumes "\<not> SCIPisIntegral env (solVal env var)"
    and "var = exprVarVar hp (leafexprs d ! 0)"
    and "left = SCIPfloor env (solVal env var)"
    and "right = SCIPceil env (solVal env var)"
    and "fleft = evalExpr env (nlexpr d) ((evalsolvals st)(var := left))"
    and "fright = evalExpr env (nlexpr d) ((evalsolvals st)(var := right))"
    and "abandoned =
          (SCIPisInfinity env \<bar>fleft\<bar> \<or> SCIPisInfinity env \<bar>fright\<bar>
           \<or> (\<not> SCIPisZero env fleft \<and> dblMul env \<bar>dblDiv env fright fleft\<bar> (SCIPepsilon env) > 1)
           \<or> (\<not> SCIPisZero env fright \<and> dblMul env \<bar>dblDiv env fleft fright\<bar> (SCIPepsilon env) > 1))"
  shows "fst (estimateConvexSecant env hp d row st) = (\<not> abandoned)"
    and "fst (snd (estimateConvexSecant env hp d row st))
          = (if abandoned then row
             else (addRowprepConstant env (dblSub env fleft (dblMul env (dblSub env fright fleft) left))
                     (addRowprepTerm var (dblSub env fright fleft) row))\<lparr>local := False\<rparr>)"
    and "rowpreps (snd (snd (estimateConvexSecant env hp d row st))) = rowpreps st"
proof -
  have lr: "secantLeftRight env var (solVal env var) = (left, right)"
    using assms(1,3,4) by (simp add: secantLeftRight_def)
  have fl: "evalExpr env (nlexpr d) ((evalsolvals (ensureEvalsol st))(var := left)) = fleft"
    using assms(5) by (simp add: evalsolvals_ensureEvalsol)
  have fr: "evalExpr env (nlexpr d) ((evalsolvals (ensureEvalsol st))(var := right)) = fright"
    using assms(6) by (simp add: evalsolvals_ensureEvalsol)
  show "fst (estimateConvexSecant env hp d row st) = (\<not> abandoned)"
    unfolding estimateConvexSecant_def assms(2) [symmetric] assms(7)
    by (simp add: Let_def lr fl fr)
  show "fst (snd (estimateConvexSecant env hp d row st))
          = (if abandoned then row
             else (addRowprepConstant env (dblSub env fleft (dblMul env (dblSub env fright fleft) left))
                     (addRowprepTerm var (dblSub env fright fleft) row))\<lparr>local := False\<rparr>)"
    unfolding estimateConvexSecant_def assms(2) [symmetric] assms(7)
    by (simp add: Let_def lr fl fr)
  show "rowpreps (snd (snd (estimateConvexSecant env hp d row st))) = rowpreps st"
    unfolding estimateConvexSecant_def
    by (simp add: Let_def rowpreps_ensureEvalsol)
qed

text \<open>
  Claim C6, as amended. When the nlhdlr-expression has exactly one leaf, this leaf is
  integral, the estimate is requested on the side of the curvature and the value \<open>x\<close> of the
  leaf variable is not integral (for SCIP), the estimator of the convex handler evaluates
  the expression at \<open>left = SCIPfloor x\<close> and \<open>right = SCIPceil x\<close>. If the two values
  \<open>fleft\<close> and \<open>fright\<close> are finite and the function is not too steep between them (neither
  quotient of the two values, times epsilon, exceeds 1), the estimator is the secant: the
  row has the single term \<open>c x\<close> with the coefficient \<open>c = fright - fleft\<close>, the constant
  \<open>fleft - c left\<close> is moved to the side, and the row is globally valid; here every
  difference and product is the one that the arithmetic of doubles computes. Otherwise the
  secant is abandoned and the gradient cut is tried instead: success and row of the
  callback are those of \<^verbatim>\<open>estimateGradient\<close> on the row prepared for the secant.
\<close>

theorem convex_secant:
  assumes "exprdata_nleafs d = 1" and "exprIsIntegral env (leafexprs d ! 0)"
    and "\<not> ((overestimate \<and> curvature (hp (nlexpr d)) = EXPRCURV_CONVEX)
            \<or> (\<not> overestimate \<and> curvature (hp (nlexpr d)) = EXPRCURV_CONCAVE))"
    and "var = exprVarVar hp (leafexprs d ! 0)"
    and "\<not> SCIPisIntegral env (solVal env var)"
    and "left = SCIPfloor env (solVal env var)"
    and "right = SCIPceil env (solVal env var)"
    and "fleft = evalExpr env (nlexpr d) ((evalsolvals st)(var := left))"
    and "fright = evalExpr env (nlexpr d) ((evalsolvals st)(var := right))"
    and "abandoned =
          (SCIPisInfinity env \<bar>fleft\<bar> \<or> SCIPisInfinity env \<bar>fright\<bar>
           \<or> (\<not> SCIPisZero env fleft \<and> dblMul env \<bar>dblDiv env fright fleft\<bar> (SCIPepsilon env) > 1)
           \<or> (\<not> SCIPisZero env fright \<and> dblMul env \<bar>dblDiv env fleft fright\<bar> (SCIPepsilon env) > 1))"
    and "prefix = (if overestimate then ''over'' else ''under'')"
    and "row0 = (createRowprep (if overestimate then SIDETYPE_LEFT else SIDETYPE_RIGHT) True)
                  \<lparr>rowname := prefix @ ''estimate_convexsecant''\<rparr>"
    and "r = nlhdlrEstimateConvex env hp d auxvalue overestimate st"
  shows "(\<not> abandoned \<longrightarrow>
            fst r = True
          \<and> map_option rowterms (rowpreps (snd (snd r))) = Some [(var, dblSub env fright fleft)]
          \<and> map_option side (rowpreps (snd (snd r)))
              = Some (dblSub env 0 (dblSub env fleft (dblMul env (dblSub env fright fleft) left)))
          \<and> map_option local (rowpreps (snd (snd r))) = Some False)
    \<and> (abandoned \<longrightarrow>
            fst r = fst (estimateGradient env hp d auxvalue row0)
          \<and> rowpreps (snd (snd r))
              = (if fst (estimateGradient env hp d auxvalue row0)
                 then Some ((snd (estimateGradient env hp d auxvalue row0))
                              \<lparr>rowname := prefix @ ''estimate_convexgradient''\<rparr>)
                 else rowpreps st))"
proof -
  let ?row = "createRowprep (if overestimate then SIDETYPE_LEFT else SIDETYPE_RIGHT) True"
  note sec = estimateConvexSecant_cases [OF assms(5) assms(4) assms(6-10), of ?row]
  obtain b rw st1 where e: "estimateConvexSecant env hp d ?row st = (b, rw, st1)"
    by (cases "estimateConvexSecant env hp d ?row st") auto
  from sec e have b: "b = (\<not> abandoned)"
    and rw: "rw = (if abandoned then ?row
                  else (addRowprepConstant env (dblSub env fleft (dblMul env (dblSub env fright fleft) left))
                         (addRowprepTerm var (dblSub env fright fleft) ?row))\<lparr>local := False\<rparr>)"
    and rp: "rowpreps st1 = rowpreps st"
    by simp_all
  obtain gs grow where g: "estimateGradient env hp d auxvalue row0 = (gs, grow)"
    by (cases "estimateGradient env hp d auxvalue row0") auto
  have good: "fst r = True
          \<and> map_option rowterms (rowpreps (snd (snd r))) = Some [(var, dblSub env fright fleft)]
          \<and> map_option side (rowpreps (snd (snd r)))
              = Some (dblSub env 0 (dblSub env fleft (dblMul env (dblSub env fright fleft) left)))
          \<and> map_option local (rowpreps (snd (snd r))) = Some False"
    if "\<not> abandoned"
    using that assms(1-3) e unfolding assms(13)
    by (simp add: nlhdlrEstimateConvex_def Let_def b rw createRowprep_def addRowprepTerm_def
        addRowprepConstant_def)
  have ws: "((overestimate \<and> curvature (hp (nlexpr d)) = EXPRCURV_CONVEX)
            \<or> (\<not> overestimate \<and> curvature (hp (nlexpr d)) = EXPRCURV_CONCAVE)) = False"
    using assms(3) by simp
  have bad: "fst r = gs \<and> rowpreps (snd (snd r))
              = (if gs then Some (grow\<lparr>rowname := prefix @ ''estimate_convexgradient''\<rparr>) else rowpreps st)"
    if "abandoned"
    using that assms(1,2) e g rp unfolding assms(13) assms(12)
    by (simp add: nlhdlrEstimateConvex_def ws Let_def b rw assms(11) [symmetric])
  from good bad g show ?thesis by simp
qed


text \<open>The theorem for the square at 2.7, where the secant through (2, 4) and (3, 9) is the
  line 5 x - 6, stored as the term 5 x with the constant moved to the side; and for the
  function with f(0) = 10^12 and f(1) = 0.99998 at 0.5, where the secant is abandoned and
  the row is the gradient cut.\<close>

lemma eenv_arith:
  "dblAdd eenv a b = a + b" "dblSub eenv a b = a - b" "dblMul eenv a b = a * b" "dblDiv eenv a b = a / b"
  "quadAssign eenv v = (v, 0)" "quadprecSumQD eenv q b = (fst q + b, snd q)" "quadToDbl eenv q = fst q + snd q"
  by (simp_all add: eenv_def)

lemma eenv_steep_simps:
  "dblAdd eenv_steep a b = a + b" "dblSub eenv_steep a b = a - b" "dblMul eenv_steep a b = a * b"
  "dblDiv eenv_steep a b = a / b"
  "quadAssign eenv_steep v = (v, 0)" "quadprecSumQD eenv_steep q b = (fst q + b, snd q)"
  "quadToDbl eenv_steep q = fst q + snd q"
  "SCIPisInfinity eenv_steep v = (v \<ge> 10^20)"
  "SCIPisIntegral eenv_steep x = (x - of_int \<lfloor>x + 1 / 10^9\<rfloor> \<le> 1 / 10^9)"
  "SCIPisZero eenv_steep x = (\<bar>x\<bar> \<le> 1 / 10^9)"
  "SCIPfloor eenv_steep x = of_int \<lfloor>x + 1 / 10^9\<rfloor>"
  "SCIPceil eenv_steep x = of_int \<lceil>x - 1 / 10^9\<rceil>"
  "SCIPepsilon eenv_steep = 1 / 10^9"
  "SCIP_INVALID eenv_steep = 10^99"
  "solVal eenv_steep v' = 1 / 2"
  "evalExpr eenv_steep e vals = (if vals 1 = 0 then 10^12 else 99998 / 100000)"
  "exprDerivative eenv_steep e = 1"
  "exprPartialDiff eenv_steep e v' = - 3"
  "exprIsIntegral eenv_steep e = True"
  by (simp_all add: eenv_steep_def eenv_def)

theorem convex_secant_witness:
  "fst (nlhdlrEstimateConvex eenv (hp_square EXPRCURV_CONVEX) d_square (729 / 100) False (est0 True)) = True
   \<and> map_option rowterms
       (rowpreps (snd (snd (nlhdlrEstimateConvex eenv (hp_square EXPRCURV_CONVEX) d_square (729 / 100) False (est0 True)))))
       = Some [(1, 5)]
   \<and> map_option side
       (rowpreps (snd (snd (nlhdlrEstimateConvex eenv (hp_square EXPRCURV_CONVEX) d_square (729 / 100) False (est0 True)))))
       = Some 6
   \<and> fst (nlhdlrEstimateConvex eenv_steep (hp_square EXPRCURV_CONVEX) d_square (99998 / 100000) False (est0 True))
       = True
   \<and> map_option rowterms
        (rowpreps (snd (snd (nlhdlrEstimateConvex eenv_steep (hp_square EXPRCURV_CONVEX) d_square
                               (99998 / 100000) False (est0 True)))))
       = Some [(1, - 3)]
   \<and> map_option rowname
        (rowpreps (snd (snd (nlhdlrEstimateConvex eenv_steep (hp_square EXPRCURV_CONVEX) d_square
                               (99998 / 100000) False (est0 True)))))
       = Some ''underestimate_convexgradient''"
proof -
  have h1: "exprdata_nleafs d_square = 1" by (simp add: square_simps)
  have h3: "\<not> ((False \<and> curvature (hp_square EXPRCURV_CONVEX (nlexpr d_square)) = EXPRCURV_CONVEX)
            \<or> (\<not> False \<and> curvature (hp_square EXPRCURV_CONVEX (nlexpr d_square)) = EXPRCURV_CONCAVE))"
    by (simp add: square_simps)
  have h4: "(1::nat) = exprVarVar (hp_square EXPRCURV_CONVEX) (leafexprs d_square ! 0)"
    by (simp add: square_simps)
  have h11: "''under'' = (if False then ''over'' else ''under'')" by simp
  have h12: "(createRowprep SIDETYPE_RIGHT True)\<lparr>rowname := ''under'' @ ''estimate_convexsecant''\<rparr>
               = (createRowprep (if False then SIDETYPE_LEFT else SIDETYPE_RIGHT) True)
                    \<lparr>rowname := ''under'' @ ''estimate_convexsecant''\<rparr>"
    by simp
  have a2: "exprIsIntegral eenv (leafexprs d_square ! 0)" by (simp add: eenv_simps)
  have a5: "\<not> SCIPisIntegral eenv (solVal eenv 1)" by (simp add: eenv_simps)
  have a6: "(2::real) = SCIPfloor eenv (solVal eenv 1)" by (simp add: eenv_simps)
  have a7: "(3::real) = SCIPceil eenv (solVal eenv 1)" by (simp add: eenv_simps)
  have a8: "(4::real) = evalExpr eenv (nlexpr d_square) ((evalsolvals (est0 True))(1 := 2))"
    by (simp add: eenv_simps)
  have a9: "(9::real) = evalExpr eenv (nlexpr d_square) ((evalsolvals (est0 True))(1 := 3))"
    by (simp add: eenv_simps)
  have a10: "False =
          (SCIPisInfinity eenv \<bar>4\<bar> \<or> SCIPisInfinity eenv \<bar>9\<bar>
           \<or> (\<not> SCIPisZero eenv 4 \<and> dblMul eenv \<bar>dblDiv eenv 9 4\<bar> (SCIPepsilon eenv) > 1)
           \<or> (\<not> SCIPisZero eenv 9 \<and> dblMul eenv \<bar>dblDiv eenv 4 9\<bar> (SCIPepsilon eenv) > 1))"
    by (simp add: eenv_simps eenv_arith)
  have b2: "exprIsIntegral eenv_steep (leafexprs d_square ! 0)" by (simp add: eenv_steep_simps)
  have b5: "\<not> SCIPisIntegral eenv_steep (solVal eenv_steep 1)" by (simp add: eenv_steep_simps)
  have b6: "(0::real) = SCIPfloor eenv_steep (solVal eenv_steep 1)" by (simp add: eenv_steep_simps)
  have b7: "(1::real) = SCIPceil eenv_steep (solVal eenv_steep 1)" by (simp add: eenv_steep_simps)
  have b8: "(10^12::real) = evalExpr eenv_steep (nlexpr d_square) ((evalsolvals (est0 True))(1 := 0))"
    by (simp add: eenv_steep_simps)
  have b9: "(99998 / 100000::real) = evalExpr eenv_steep (nlexpr d_square) ((evalsolvals (est0 True))(1 := 1))"
    by (simp add: eenv_steep_simps)
  have b10: "True =
          (SCIPisInfinity eenv_steep \<bar>10^12\<bar> \<or> SCIPisInfinity eenv_steep \<bar>99998 / 100000\<bar>
           \<or> (\<not> SCIPisZero eenv_steep (10^12)
                \<and> dblMul eenv_steep \<bar>dblDiv eenv_steep (99998 / 100000) (10^12)\<bar> (SCIPepsilon eenv_steep) > 1)
           \<or> (\<not> SCIPisZero eenv_steep (99998 / 100000)
                \<and> dblMul eenv_steep \<bar>dblDiv eenv_steep (10^12) (99998 / 100000)\<bar> (SCIPepsilon eenv_steep) > 1))"
    by (simp add: eenv_steep_simps)
  have grad: "estimateGradient eenv_steep (hp_square EXPRCURV_CONVEX) d_square (99998 / 100000)
                ((createRowprep SIDETYPE_RIGHT True)\<lparr>rowname := ''under'' @ ''estimate_convexsecant''\<rparr>)
              = (True, \<lparr>rowterms = [(1, - 3)], side = - (99998 / 100000 + 3 / 2), sidetype = SIDETYPE_RIGHT,
                        local = False, rowname = ''underestimate_convexsecant''\<rparr>)"
    by (simp add: estimateGradient_def eenv_steep_simps d_square_def hp_square_def leafexpr_def exprVarVar_def
        createRowprep_def addRowprepTerm_def addRowprepConstant_def)
  from convex_secant [OF h1 a2 h3 h4 a5 a6 a7 a8 a9 a10 h11 h12 refl, of "729 / 100"]
  have one: "fst (nlhdlrEstimateConvex eenv (hp_square EXPRCURV_CONVEX) d_square (729 / 100) False (est0 True)) = True
   \<and> map_option rowterms
       (rowpreps (snd (snd (nlhdlrEstimateConvex eenv (hp_square EXPRCURV_CONVEX) d_square (729 / 100) False (est0 True)))))
       = Some [(1, 5)]
   \<and> map_option side
       (rowpreps (snd (snd (nlhdlrEstimateConvex eenv (hp_square EXPRCURV_CONVEX) d_square (729 / 100) False (est0 True)))))
       = Some 6"
    by (simp add: eenv_arith)
  from convex_secant [OF h1 b2 h3 h4 b5 b6 b7 b8 b9 b10 h11 h12 refl, of "99998 / 100000"] grad
  have two: "fst (nlhdlrEstimateConvex eenv_steep (hp_square EXPRCURV_CONVEX) d_square (99998 / 100000) False (est0 True))
       = True
   \<and> map_option rowterms
        (rowpreps (snd (snd (nlhdlrEstimateConvex eenv_steep (hp_square EXPRCURV_CONVEX) d_square
                               (99998 / 100000) False (est0 True)))))
       = Some [(1, - 3)]
   \<and> map_option rowname
        (rowpreps (snd (snd (nlhdlrEstimateConvex eenv_steep (hp_square EXPRCURV_CONVEX) d_square
                               (99998 / 100000) False (est0 True)))))
       = Some ''underestimate_convexgradient''"
    by simp
  from one two show ?thesis by blast
qed

text \<open>The claim as stated fails where the secant is abandoned: for the function with
  f(0) = 10^12 and f(1) = 0.99998 at x = 0.5 the coefficient of the secant would be
  0.99998 - 10^12, but the function is too steep, and the estimator returns the gradient
  cut with coefficient -3.\<close>

theorem convex_secant_counterexample:
  "exprdata_nleafs d_square = 1
   \<and> exprIsIntegral eenv_steep (leafexprs d_square ! 0)
   \<and> \<not> SCIPisIntegral eenv_steep (solVal eenv_steep 1)
   \<and> SCIPfloor eenv_steep (solVal eenv_steep 1) = 0
   \<and> SCIPceil eenv_steep (solVal eenv_steep 1) = 1
   \<and> evalExpr eenv_steep 4 ((evalsolvals (est0 True))(1 := 1))
       - evalExpr eenv_steep 4 ((evalsolvals (est0 True))(1 := 0)) = 99998 / 100000 - 10^12
   \<and> fst (nlhdlrEstimateConvex eenv_steep (hp_square EXPRCURV_CONVEX) d_square (99998 / 100000) False (est0 True))
       = True
   \<and> map_option rowterms
        (rowpreps (snd (snd (nlhdlrEstimateConvex eenv_steep (hp_square EXPRCURV_CONVEX) d_square
                               (99998 / 100000) False (est0 True)))))
       = Some [(1, - 3)]"
  by (simp add: nlhdlrEstimateConvex_def estimateConvexSecant_def secantLeftRight_def estimateGradient_def
      ensureEvalsol_def eenv_steep_simps est0_def d_square_def hp_square_def leafexpr_def exprVarVar_def
      createRowprep_def addRowprepTerm_def addRowprepConstant_def Let_def)

subsection \<open>The order of the curvature checks\<close>

lemma curvCheckProductComposite_fails:
  "\<not> fst (curvCheckProductComposite env nd n isr success0 s)
     \<Longrightarrow> curvCheckProductComposite env nd n isr success0 s = (False, s)"
  by (auto simp: curvCheckProductComposite_def Let_def split: option.splits prod.splits if_splits)

lemma curvCheckSignomial_fails:
  "\<not> fst (curvCheckSignomial env nd n isr success0 s)
     \<Longrightarrow> curvCheckSignomial env nd n isr success0 s = (False, s)"
  by (auto simp: curvCheckSignomial_def Let_def split: option.splits prod.splits if_splits)

lemma curvCheckQuadratic_fails:
  "\<not> fst (curvCheckQuadratic env nd n isr success0 s)
     \<Longrightarrow> curvCheckQuadratic env nd n isr success0 s = (False, s)"
  by (auto simp: curvCheckQuadratic_def Let_def split: option.splits prod.splits if_splits)

lemma curvCheckExprhdlr_fails:
  "\<not> fst (curvCheckExprhdlr env nd n isr False s)
     \<Longrightarrow> curvCheckExprhdlr env nd n isr False s = (False, s)"
  by (auto simp: curvCheckExprhdlr_def Let_def split: option.splits prod.splits if_splits)

lemma curvCheck_success0:
  "curvCheckProductComposite env nd n isr success0 s = curvCheckProductComposite env nd n isr False s"
  "curvCheckSignomial env nd n isr success0 s = curvCheckSignomial env nd n isr False s"
  "curvCheckQuadratic env nd n isr success0 s = curvCheckQuadratic env nd n isr False s"
  by (simp_all add: curvCheckProductComposite_def curvCheckSignomial_def curvCheckQuadratic_def)

lemma tryCurvChecks_Cons:
  "tryCurvChecks (check # checks) env nd n isr success0 s =
     (if fst (check env nd n isr success0 s) then (True, snd (check env nd n isr success0 s))
      else tryCurvChecks checks env nd n isr False (snd (check env nd n isr success0 s)))"
  by (cases "check env nd n isr success0 s") auto

lemma tryCurvChecks_first_success:
  "tryCurvChecks CURVCHECKS env nd n isr uninit s =
     (if fst (curvCheckProductComposite env nd n isr False s)
      then (True, snd (curvCheckProductComposite env nd n isr False s))
      else if fst (curvCheckSignomial env nd n isr False s)
      then (True, snd (curvCheckSignomial env nd n isr False s))
      else if fst (curvCheckQuadratic env nd n isr False s)
      then (True, snd (curvCheckQuadratic env nd n isr False s))
      else if fst (curvCheckExprhdlr env nd n isr False s)
      then (True, snd (curvCheckExprhdlr env nd n isr False s))
      else (False, s))"
proof -
  have pc: "snd (curvCheckProductComposite env nd n isr False s) = s"
    if "\<not> fst (curvCheckProductComposite env nd n isr False s)"
    using curvCheckProductComposite_fails [OF that] by simp
  have sg: "snd (curvCheckSignomial env nd n isr False s) = s"
    if "\<not> fst (curvCheckSignomial env nd n isr False s)"
    using curvCheckSignomial_fails [OF that] by simp
  have qd: "snd (curvCheckQuadratic env nd n isr False s) = s"
    if "\<not> fst (curvCheckQuadratic env nd n isr False s)"
    using curvCheckQuadratic_fails [OF that] by simp
  have eh: "snd (curvCheckExprhdlr env nd n isr False s) = s"
    if "\<not> fst (curvCheckExprhdlr env nd n isr False s)"
    using curvCheckExprhdlr_fails [OF that] by simp
  show ?thesis
    unfolding CURVCHECKS_def tryCurvChecks_Cons tryCurvChecks.simps(1)
      curvCheck_success0 [of env nd n isr uninit s]
    using pc sg qd eh by simp
qed

text \<open>
  Claim C1, as amended. The list of curvature checks is product composition, signomial,
  quadratic, expression handler, in this order, so that the callback of the expression
  handler is the last one tried. Trying the checks on a node gives the result of the first
  check in this order that reports success (its growing of children and its pushes on the
  stack); the checks before it have left the state as it was, and the checks after it are
  not run. If no check succeeds, the state is unchanged. The loop of the construction
  tries the checks on a node taken from the stack if the required curvature of the node
  is not Unknown and the node has not been stopped before: in the convex handler a node
  whose expression handler has no backward differentiation, and in the concave handler
  a node whose original is a multivariate linear sum, stay leafs and no check is run.
\<close>

theorem curvature_checks_in_order:
  "CURVCHECKS = [curvCheckProductComposite, curvCheckSignomial, curvCheckQuadratic, curvCheckExprhdlr]
   \<and> last CURVCHECKS = curvCheckExprhdlr
   \<and> tryCurvChecks CURVCHECKS env nd n isr uninit s =
       (if fst (curvCheckProductComposite env nd n isr False s)
        then (True, snd (curvCheckProductComposite env nd n isr False s))
        else if fst (curvCheckSignomial env nd n isr False s)
        then (True, snd (curvCheckSignomial env nd n isr False s))
        else if fst (curvCheckQuadratic env nd n isr False s)
        then (True, snd (curvCheckQuadratic env nd n isr False s))
        else if fst (curvCheckExprhdlr env nd n isr False s)
        then (True, snd (curvCheckExprhdlr env nd n isr False s))
        else (False, s))
   \<and> (\<not> (isnlhdlrconvex nd \<and> \<not> hasBwdiff env (kind (heap s n)))
        \<and> \<not> (\<not> isnlhdlrconvex nd \<and> exprIsMultivarLinear s (hashmapGetImage (nlexpr2origexpr s) n))
        \<and> curvature (heap s n) \<noteq> EXPRCURV_UNKNOWN
       \<longrightarrow> constructVisit env nd uninit n isr s = snd (tryCurvChecks CURVCHECKS env nd n isr uninit s))"
  using tryCurvChecks_first_success [of env nd n isr uninit s]
  by (simp add: constructVisit_def) (simp add: CURVCHECKS_def)

text \<open>The theorem for the root of sqrt(y+z) sqrt(x), to be concave, in the convex handler:
  the product has backward differentiation, the checks are tried, and the signomial
  check is the one that succeeds.\<close>

theorem curvature_checks_in_order_witness:
  "constructVisit senv (ndata True False) False 30 True (xroot 15 EXPRCURV_CONCAVE)
     = snd (tryCurvChecks CURVCHECKS senv (ndata True False) 30 True False (xroot 15 EXPRCURV_CONCAVE))
   \<and> \<not> fst (curvCheckProductComposite senv (ndata True False) 30 True False (xroot 15 EXPRCURV_CONCAVE))
   \<and> tryCurvChecks CURVCHECKS senv (ndata True False) 30 True False (xroot 15 EXPRCURV_CONCAVE)
       = (True, snd (curvCheckSignomial senv (ndata True False) 30 True False (xroot 15 EXPRCURV_CONCAVE)))"
proof -
  have h: "\<not> (isnlhdlrconvex (ndata True False)
               \<and> \<not> hasBwdiff senv (kind (heap (xroot 15 EXPRCURV_CONCAVE) 30)))
        \<and> \<not> (\<not> isnlhdlrconvex (ndata True False)
               \<and> exprIsMultivarLinear (xroot 15 EXPRCURV_CONCAVE)
                    (hashmapGetImage (nlexpr2origexpr (xroot 15 EXPRCURV_CONCAVE)) 30))
        \<and> curvature (heap (xroot 15 EXPRCURV_CONCAVE) 30) \<noteq> EXPRCURV_UNKNOWN"
    by (simp add: xroot_def run_simps)
  have pc: "\<not> fst (curvCheckProductComposite senv (ndata True False) 30 True False (xroot 15 EXPRCURV_CONCAVE))"
    by (simp add: xroot_def run_simps)
  have sg: "fst (curvCheckSignomial senv (ndata True False) 30 True False (xroot 15 EXPRCURV_CONCAVE))"
    by (simp add: xroot_def run_simps)
  from curvature_checks_in_order [of senv "ndata True False" 30 True False "xroot 15 EXPRCURV_CONCAVE"]
    h pc sg
  show ?thesis by simp
qed

text \<open>The claim as stated fails for a node of the convex handler whose expression handler
  has no backward differentiation. The root of u(x) is to be convex, and the checks, if
  tried, would succeed (the callback of the expression handler accepts) and grow and push
  the child x; but the loop does not try them, and the node stays a leaf.\<close>

theorem curvature_checks_in_order_counterexample:
  "curvature (heap (xroot 18 EXPRCURV_CONVEX) 30) = EXPRCURV_CONVEX
   \<and> fst (tryCurvChecks CURVCHECKS senv (ndata True False) 30 True False (xroot 18 EXPRCURV_CONVEX))
   \<and> children (heap (snd (tryCurvChecks CURVCHECKS senv (ndata True False) 30 True False
                              (xroot 18 EXPRCURV_CONVEX))) 30) = [24]
   \<and> stack (snd (tryCurvChecks CURVCHECKS senv (ndata True False) 30 True False
                     (xroot 18 EXPRCURV_CONVEX))) = [24]
   \<and> constructVisit senv (ndata True False) False 30 True (xroot 18 EXPRCURV_CONVEX)
       = xroot 18 EXPRCURV_CONVEX
   \<and> children (heap (xroot 18 EXPRCURV_CONVEX) 30) = []
   \<and> stack (xroot 18 EXPRCURV_CONVEX) = []"
  by (simp add: xroot_def run_simps)

subsection \<open>The signomial check and extended formulations\<close>

text \<open>
  Claim C4 does not hold for the code. The signomial check, run with "prefer extended
  formulations" enabled on the root of sqrt(y+z) sqrt(x) that is to be concave, succeeds;
  the factor y+z has two children in the original, and its copy (at address 33, the child
  of the copy of the first power) is required to be concave, not linear. The test of the
  code counts the children of the copy, which has none at that moment, so that the
  parameter has no effect: the check gives the same result with the parameter disabled.
\<close>

theorem signomial_preferextended:
  "preferextended (ndata True False)
   \<and> fst (curvCheckSignomial senv (ndata True False) 30 True False (xroot 15 EXPRCURV_CONCAVE))
   \<and> children (heap (snd (curvCheckSignomial senv (ndata True False) 30 True False
                              (xroot 15 EXPRCURV_CONCAVE))) 30) = [31, 32]
   \<and> children (heap (snd (curvCheckSignomial senv (ndata True False) 30 True False
                              (xroot 15 EXPRCURV_CONCAVE))) 31) = [33]
   \<and> nlexpr2origexpr (snd (curvCheckSignomial senv (ndata True False) 30 True False
                              (xroot 15 EXPRCURV_CONCAVE))) 33 = Some 12
   \<and> children (heap xstate 12) = [25, 26]
   \<and> curvature (heap (snd (curvCheckSignomial senv (ndata True False) 30 True False
                               (xroot 15 EXPRCURV_CONCAVE))) 33) = EXPRCURV_CONCAVE
   \<and> stack (snd (curvCheckSignomial senv (ndata True False) 30 True False
                     (xroot 15 EXPRCURV_CONCAVE))) = [33, 24]
   \<and> curvCheckSignomial senv (ndata True False) 30 True False (xroot 15 EXPRCURV_CONCAVE)
       = curvCheckSignomial senv ((ndata True False)\<lparr>preferextended := False\<rparr>) 30 True False
           (xroot 15 EXPRCURV_CONCAVE)"
  by (simp add: xroot_def run_simps)

subsection \<open>A bare sum of two variables\<close>

lemma leaf_visit:
  assumes "children (heap s l) = []" and "nlexpr2origexpr s l = Some l" and "isVar (kind (heap s l))"
  shows "constructVisit env nd uninit l isr s = s"
  using assms
  by (simp add: constructVisit_def CURVCHECKS_def curvCheckProductComposite_def curvCheckSignomial_def
      curvCheckQuadratic_def curvCheckExprhdlr_def hashmapGetImage_def nchildren_def
      nlhdlrExprGrowChildren_def exprstackPush_def isVar_def isProduct_def isSum_def Let_def
      split: exprkind.splits)

lemma growChildrenLoop_two_leafs:
  assumes "children (heap s x) = []" and "children (heap s y) = []" and "x \<noteq> a" and "y \<noteq> a"
  shows "growChildrenLoop a [x, y] cc i s =
           s\<lparr>heap := (heap s)(a := (heap s a)\<lparr>children := children (heap s a) @ [x, y]\<rparr>),
             nlexpr2origexpr :=
               (let m1 = (if nlexpr2origexpr s x \<noteq> None then nlexpr2origexpr s else (nlexpr2origexpr s)(x \<mapsto> x))
                in if m1 y \<noteq> None then m1 else m1(y \<mapsto> y))\<rparr>"
  using assms
  by (simp add: nlhdlrExprCreate_def nchildren_def appendExpr_def Let_def)

lemma upt_0_2: "[0 ..< Suc (Suc 0)] = [0, Suc 0]" "[0 ..< 2] = [0, Suc 0]"
  by (simp_all add: upt_rec)

lemma bareSum_root_visit:
  assumes "isSum (kind (heap s a))" and "children (heap s a) = []" and "nlexpr2origexpr s a = Some r"
    and "children (heap s r) = [x, y]" and "isSum (kind (heap s r))"
    and "children (heap s x) = []" and "children (heap s y) = []"
    and "isVar (kind (heap s x))" and "isVar (kind (heap s y))"
    and "x \<noteq> a" and "y \<noteq> a"
    and "nlexpr2origexpr s x = None \<or> nlexpr2origexpr s x = Some x"
    and "nlexpr2origexpr s y = None \<or> nlexpr2origexpr s y = Some y"
    and "stack s = []"
  shows "bareSumVisited a x y (isnlhdlrconvex nd) (constructVisit env nd uninit a isr s)"
proof -
  have grow: "nlhdlrExprGrowChildren a cc s =
           s\<lparr>heap := (heap s)(a := (heap s a)\<lparr>children := [x, y]\<rparr>),
             nlexpr2origexpr := (nlexpr2origexpr s)(x \<mapsto> x, y \<mapsto> y)\<rparr>" for cc
    using assms(2,3,4,12,13)
    by (auto simp: nlhdlrExprGrowChildren_def hashmapGetImage_def nchildren_def Let_def
        growChildrenLoop_two_leafs [OF assms(6,7,10,11)] map_upd_triv fun_upd_twist
        simp del: growChildrenLoop.simps)
  have notprod: "\<not> isProduct (kind (heap s a))"
    using assms(1) by (auto simp: isSum_def isProduct_def split: exprkind.splits)
  have xk: "\<not> isPower (kind (heap s x))" "\<not> isProduct (kind (heap s x))"
    and yk: "\<not> isPower (kind (heap s y))" "\<not> isProduct (kind (heap s y))"
    using assms(8,9) by (auto simp: isVar_def isPower_def isProduct_def split: exprkind.splits)
  have ml: "exprIsMultivarLinear s r"
    using assms(4,5,6,7) by (simp add: exprIsMultivarLinear_def nchildren_def)
  have same: "bareSumVisited a x y c s" for c
    using assms by (simp add: bareSumVisited_def)
  have pc: "\<not> fst (curvCheckProductComposite env nd a isr False s)"
    using notprod by (simp add: curvCheckProductComposite_def)
  have sg: "\<not> fst (curvCheckSignomial env nd a isr False s)"
    using notprod by (simp add: curvCheckSignomial_def)
  have qd: "bareSumVisited a x y True (snd (curvCheckQuadratic env nd a isr False s))"
  proof (cases "fst (curvCheckQuadratic env nd a isr False s)")
    case False
    then show ?thesis using curvCheckQuadratic_fails [OF False] same by simp
  next
    case True
    then have "snd (curvCheckQuadratic env nd a isr False s)
        = foldl (quadraticChild r a) (nlhdlrExprGrowChildren a None s)
            [0 ..< nchildren (nlhdlrExprGrowChildren a None s) a]"
      using assms(3)
      by (auto simp: curvCheckQuadratic_def hashmapGetImage_def Let_def split: option.splits if_splits)
    then show ?thesis
      using assms xk yk
      by (simp add: grow nchildren_def upt_0_2 quadraticChild_def exprstackPush_def setCurvature_def
          bareSumVisited_def Let_def)
  qed
  have eh: "bareSumVisited a x y True (snd (curvCheckExprhdlr env nd a isr False s))"
  proof (cases "fst (curvCheckExprhdlr env nd a isr False s)")
    case False
    then show ?thesis using curvCheckExprhdlr_fails [OF False] same by simp
  next
    case True
    then show ?thesis
      using assms
      by (auto simp: curvCheckExprhdlr_def hashmapGetImage_def nchildren_def grow upt_0_2
          exprstackPush_def setCurvature_def bareSumVisited_def Let_def
          split: prod.splits if_splits)
  qed
  have un: "bareSumVisited a x y True
      (exprstackPush (children (heap (nlhdlrExprGrowChildren a None s) a)) (nlhdlrExprGrowChildren a None s))"
    using assms by (simp add: grow exprstackPush_def bareSumVisited_def)
  have weaken: "bareSumVisited a x y True t \<Longrightarrow> isnlhdlrconvex nd \<Longrightarrow> bareSumVisited a x y (isnlhdlrconvex nd) t" for t
    by simp
  show ?thesis
  proof (cases "isnlhdlrconvex nd")
    case False
    then show ?thesis using ml assms(3) same
      by (simp add: constructVisit_def hashmapGetImage_def)
  next
    case True
    show ?thesis
      using True pc sg qd eh un same
      by (simp add: constructVisit_def tryCurvChecks_first_success Let_def)
  qed
qed


lemma leaf_step:
  assumes "stack (cs ls) = st @ [l]" and "children (heap (cs ls) l) = []"
    and "nlexpr2origexpr (cs ls) l = Some l" and "isVar (kind (heap (cs ls) l))"
  shows "cs (constructStep env nd uninit ls) = (cs ls)\<lparr>stack := st\<rparr>"
proof -
  have "constructVisit env nd uninit l (isrootexpr ls) ((cs ls)\<lparr>stack := st\<rparr>) = (cs ls)\<lparr>stack := st\<rparr>"
    by (rule leaf_visit) (simp_all add: assms)
  then show ?thesis
    using assms(1) by (simp add: constructStep_def exprstackPop_def Let_def)
qed

lemma constructLoop_empty:
  "stack (cs ls) = [] \<Longrightarrow> constructLoop fuel env nd uninit ls = Some ls"
  by (cases fuel) (simp_all add: exprstackIsEmpty_def)

lemma constructLoop_nonempty:
  "stack (cs ls) \<noteq> [] \<Longrightarrow>
     constructLoop (Suc fuel) env nd uninit ls = constructLoop fuel env nd uninit (constructStep env nd uninit ls)"
  by (simp add: exprstackIsEmpty_def)

lemma bareSum_loop:
  assumes "bareSumVisited a x y c (cs ls)"
  shows "\<exists>ls'. constructLoop (Suc (Suc fuel)) env nd uninit ls = Some ls'
           \<and> heap (cs ls') = heap (cs ls) \<and> stack (cs ls') = []"
proof (cases "stack (cs ls) = []")
  case True
  then show ?thesis using constructLoop_empty [OF True] by simp
next
  case False
  with assms have st: "stack (cs ls) = [x] @ [y]"
    and leafs: "children (heap (cs ls) x) = []" "children (heap (cs ls) y) = []"
      "isVar (kind (heap (cs ls) x))" "isVar (kind (heap (cs ls) y))"
      "nlexpr2origexpr (cs ls) x = Some x" "nlexpr2origexpr (cs ls) y = Some y"
    by (auto simp: bareSumVisited_def)
  let ?ls1 = "constructStep env nd uninit ls"
  have c1: "cs ?ls1 = (cs ls)\<lparr>stack := [x]\<rparr>"
    by (rule leaf_step [OF st leafs(2) leafs(6) leafs(4)])
  let ?ls2 = "constructStep env nd uninit ?ls1"
  have c2: "cs ?ls2 = (cs ?ls1)\<lparr>stack := []\<rparr>"
    by (rule leaf_step [where st = "[]" and l = x]) (simp_all add: c1 leafs)
  have "constructLoop (Suc (Suc fuel)) env nd uninit ls = constructLoop (Suc fuel) env nd uninit ?ls1"
    using False by (rule constructLoop_nonempty)
  also have "\<dots> = constructLoop fuel env nd uninit ?ls2"
    by (rule constructLoop_nonempty) (simp add: c1)
  also have "\<dots> = Some ?ls2"
    by (rule constructLoop_empty) (simp add: c2)
  finally show ?thesis by (simp add: c2 c1)
qed

text \<open>
  Claim C5, as amended. For a bare sum x + y of two plain variables the construction
  reports failure (the root is released and \<^verbatim>\<open>NULL\<close> is returned) under every
  configuration of the handler, the default one as well as with "handle trivial"
  enabled, for either handler, every curvature and every answer of the expression
  handlers; three iterations of the loop suffice. The parameter "handle trivial" relaxes
  the test for triviality only for a root that is not a sum: with the parameter enabled
  such a root is trivial if and only if it has no children, while a root that is a sum, and
  every root when the parameter is disabled, is trivial if and only if none of its
  children has children. Every construction returns \<^verbatim>\<open>NULL\<close> if the root it created is
  trivial in the constructed expression, and this root otherwise.
\<close>

theorem bare_sum_is_trivial:
  assumes "isSum (kind (heap s r))" and "children (heap s r) = [x, y]"
    and "children (heap s x) = []" and "children (heap s y) = []"
    and "isVar (kind (heap s x))" and "isVar (kind (heap s y))"
    and "r < nextaddr s" and "x < nextaddr s" and "y < nextaddr s"
    and "nlexpr2origexpr s = Map.empty"
  shows "map_option fst (constructExpr (Suc (Suc (Suc fuel))) env nd uninit r curv wantsuccess s) = Some 0
    \<and> isTrivial nd' t e
        = (if handletrivial nd' \<and> \<not> isSum (kind (heap t e)) then children (heap t e) = []
           else list_all (\<lambda>c. children (heap t c) = []) (children (heap t e)))
    \<and> (constructExpr fuel' env' nd' uninit' r' curv' wantsuccess' s' = Some (rt, ls')
        \<longrightarrow> rt = (if fst (nlhdlrExprCreate r' curv' s') \<noteq> 0
                         \<and> isTrivial nd' (cs ls') (fst (nlhdlrExprCreate r' curv' s'))
                      then 0 else fst (nlhdlrExprCreate r' curv' s')))"
proof -
  have flag: "isTrivial nd' t e
        = (if handletrivial nd' \<and> \<not> isSum (kind (heap t e)) then children (heap t e) = []
           else list_all (\<lambda>c. children (heap t c) = []) (children (heap t e)))"
    by (simp add: isTrivial_def nchildren_def)
  have res: "constructExpr fuel' env' nd' uninit' r' curv' wantsuccess' s' = Some (rt, ls')
        \<longrightarrow> rt = (if fst (nlhdlrExprCreate r' curv' s') \<noteq> 0
                         \<and> isTrivial nd' (cs ls') (fst (nlhdlrExprCreate r' curv' s'))
                      then 0 else fst (nlhdlrExprCreate r' curv' s'))"
    by (auto simp: constructExpr_def split: prod.splits option.splits if_splits)
  let ?a = "nextaddr s"
  let ?s1 = "s\<lparr>heap := (heap s)(?a := \<lparr>kind = kind (heap s r), children = [], curvature = curv, auxvar = None\<rparr>),
               nextaddr := Suc ?a, nlexpr2origexpr := [?a \<mapsto> r], stack := []\<rparr>"
  let ?ls0 = "\<lparr>cs = ?s1\<lparr>stack := [?a]\<rparr>, isrootexpr = True, nleafs = 0,
               curvsuccess = (if wantsuccess then Some True else None)\<rparr>"
  have create: "nlhdlrExprCreate r curv s = (?a, ?s1\<lparr>stack := stack s\<rparr>)"
    using assms(2,10) by (simp add: nlhdlrExprCreate_def nchildren_def)
  have vis: "bareSumVisited ?a x y (isnlhdlrconvex nd) (constructVisit env nd uninit ?a True ?s1)"
    by (rule bareSum_root_visit [where r = r]) (use assms in auto)
  let ?ls1 = "constructStep env nd uninit ?ls0"
  have cs1: "cs ?ls1 = constructVisit env nd uninit ?a True ?s1"
    by (simp add: constructStep_def exprstackPop_def Let_def)
  from bareSum_loop [of ?a x y "isnlhdlrconvex nd" ?ls1 fuel env nd uninit] vis cs1
  obtain lsf where loop: "constructLoop (Suc (Suc fuel)) env nd uninit ?ls1 = Some lsf"
    and hp: "heap (cs lsf) = heap (constructVisit env nd uninit ?a True ?s1)"
    by auto
  have loop0: "constructLoop (Suc (Suc (Suc fuel))) env nd uninit ?ls0 = Some lsf"
    using loop by (simp add: exprstackIsEmpty_def)
  from vis hp have fin: "isSum (kind (heap (cs lsf) ?a))"
      "list_all (\<lambda>c. \<not> nchildren (cs lsf) c > 0) (children (heap (cs lsf) ?a))"
      "\<not> isnlhdlrconvex nd \<longrightarrow> children (heap (cs lsf) ?a) = []"
    by (auto simp: bareSumVisited_def nchildren_def)
  have post: "removeMultivarLinear (Suc (Suc (Suc fuel))) ?a 0 (cs lsf, []) = Some (cs lsf, [])"
    if "\<not> isnlhdlrconvex nd"
    using that fin(3) by (simp add: nchildren_def)
  have triv: "isTrivial nd (cs lsf) ?a"
    using fin(1,2) by (simp add: isTrivial_def)
  have "map_option fst (constructExpr (Suc (Suc (Suc fuel))) env nd uninit r curv wantsuccess s) = Some 0"
    using create loop0 post triv
    by (simp add: constructExpr_def exprstackPush_def del: constructLoop.simps removeMultivarLinear.simps)
  with flag res show ?thesis by blast
qed

text \<open>The theorem on the example store. The sum x + y with the default parameters of the
  convex handler is released. The square root of x in the concave handler gets the child
  x: with "handle trivial" enabled the root is not trivial and is returned, with the
  parameter disabled it is trivial and released. The sum x + y in the convex handler that
  detects sums at the root gets the children x and y: it is trivial and released although
  "handle trivial" is enabled.\<close>

theorem bare_sum_is_trivial_witness:
  "map_option fst (constructExpr (Suc (Suc (Suc 0))) senv (ndata True False) False 4 EXPRCURV_CONVEX False xstate)
     = Some 0
   \<and> (\<exists>ls. constructExpr 20 senv (ndata False True) False 14 EXPRCURV_CONCAVE False xstate = Some (30, ls)
          \<and> children (heap (cs ls) 30) = [24] \<and> children (heap (cs ls) 24) = []
          \<and> \<not> isTrivial (ndata False True) (cs ls) 30 \<and> isTrivial (ndata False False) (cs ls) 30)
   \<and> map_option fst (constructExpr 20 senv (ndata False False) False 14 EXPRCURV_CONCAVE False xstate) = Some 0
   \<and> (\<exists>ls. constructExpr 20 senv ((ndata True True)\<lparr>detectsum := True\<rparr>) False 4 EXPRCURV_CONVEX False xstate
              = Some (0, ls)
          \<and> children (heap (cs ls) 30) = [24, 25]
          \<and> isTrivial ((ndata True True)\<lparr>detectsum := True\<rparr>) (cs ls) 30)"
proof -
  have h: "isSum (kind (heap xstate 4))" "children (heap xstate 4) = [24, 25]"
    "children (heap xstate 24) = []" "children (heap xstate 25) = []"
    "isVar (kind (heap xstate 24))" "isVar (kind (heap xstate 25))"
    "4 < nextaddr xstate" "24 < nextaddr xstate" "25 < nextaddr xstate"
    "nlexpr2origexpr xstate = Map.empty"
    by (simp_all add: xstate_def ex_simps isSum_def isVar_def)
  note T = bare_sum_is_trivial [OF h]
  have one: "map_option fst (constructExpr (Suc (Suc (Suc 0))) senv (ndata True False) False 4 EXPRCURV_CONVEX False xstate)
     = Some 0"
    using T by blast
  have c30: "fst (nlhdlrExprCreate 14 EXPRCURV_CONCAVE xstate) = 30" "fst (nlhdlrExprCreate 4 EXPRCURV_CONVEX xstate) = 30"
    by (simp_all add: run_simps)
  have r1: "map_option (\<lambda>r. (fst r, children (heap (cs (snd r)) 30), children (heap (cs (snd r)) 24),
                             kind (heap (cs (snd r)) 30)))
              (constructExpr 20 senv (ndata False True) False 14 EXPRCURV_CONCAVE False xstate)
            = Some (30, [24], [], Power (1 / 2))"
    by (simp add: run_simps)
  then obtain ls1 where l1: "constructExpr 20 senv (ndata False True) False 14 EXPRCURV_CONCAVE False xstate = Some (30, ls1)"
    and k1: "children (heap (cs ls1) 30) = [24]" "children (heap (cs ls1) 24) = []"
            "kind (heap (cs ls1) 30) = Power (1 / 2)"
    by (cases "constructExpr 20 senv (ndata False True) False 14 EXPRCURV_CONCAVE False xstate") auto
  have t1: "\<not> isTrivial (ndata False True) (cs ls1) 30"
    using T [where nd' = "ndata False True" and t = "cs ls1" and e = 30] k1
    by (simp add: ndata_simps isSum_def)
  have t2: "isTrivial (ndata False False) (cs ls1) 30"
    using T [where nd' = "ndata False False" and t = "cs ls1" and e = 30] k1
    by (simp add: ndata_simps isSum_def)
  have two: "\<exists>ls. constructExpr 20 senv (ndata False True) False 14 EXPRCURV_CONCAVE False xstate = Some (30, ls)
          \<and> children (heap (cs ls) 30) = [24] \<and> children (heap (cs ls) 24) = []
          \<and> \<not> isTrivial (ndata False True) (cs ls) 30 \<and> isTrivial (ndata False False) (cs ls) 30"
    using l1 k1 t1 t2 by blast
  have three: "map_option fst (constructExpr 20 senv (ndata False False) False 14 EXPRCURV_CONCAVE False xstate) = Some 0"
    by (simp add: run_simps)
  have r2: "map_option (\<lambda>r. (fst r, children (heap (cs (snd r)) 30), kind (heap (cs (snd r)) 30)))
              (constructExpr 20 senv ((ndata True True)\<lparr>detectsum := True\<rparr>) False 4 EXPRCURV_CONVEX False xstate)
            = Some (0, [24, 25], Sum [1, 1] 0)"
    by (simp add: run_simps)
  then obtain ls2 where l2: "constructExpr 20 senv ((ndata True True)\<lparr>detectsum := True\<rparr>) False 4 EXPRCURV_CONVEX
                               False xstate = Some (0, ls2)"
    and k2: "children (heap (cs ls2) 30) = [24, 25]" "kind (heap (cs ls2) 30) = Sum [1, 1] 0"
    by (cases "constructExpr 20 senv ((ndata True True)\<lparr>detectsum := True\<rparr>) False 4 EXPRCURV_CONVEX False xstate")
       auto
  from T [where fuel' = 20 and env' = senv and nd' = "(ndata True True)\<lparr>detectsum := True\<rparr>"
           and uninit' = False and r' = 4 and curv' = EXPRCURV_CONVEX and wantsuccess' = False
           and s' = xstate and rt = 0 and ls' = ls2]
  have "constructExpr 20 senv ((ndata True True)\<lparr>detectsum := True\<rparr>) False 4 EXPRCURV_CONVEX False xstate
           = Some (0, ls2)
        \<longrightarrow> 0 = (if fst (nlhdlrExprCreate 4 EXPRCURV_CONVEX xstate) \<noteq> 0
                         \<and> isTrivial ((ndata True True)\<lparr>detectsum := True\<rparr>) (cs ls2)
                               (fst (nlhdlrExprCreate 4 EXPRCURV_CONVEX xstate))
                      then 0 else fst (nlhdlrExprCreate 4 EXPRCURV_CONVEX xstate))"
    by blast
  with l2 have "0 = (if fst (nlhdlrExprCreate 4 EXPRCURV_CONVEX xstate) \<noteq> 0
                         \<and> isTrivial ((ndata True True)\<lparr>detectsum := True\<rparr>) (cs ls2)
                               (fst (nlhdlrExprCreate 4 EXPRCURV_CONVEX xstate))
                      then 0 else fst (nlhdlrExprCreate 4 EXPRCURV_CONVEX xstate))"
    by blast
  then have t3: "isTrivial ((ndata True True)\<lparr>detectsum := True\<rparr>) (cs ls2) 30"
    unfolding c30 by (simp split: if_splits)
  have four: "\<exists>ls. constructExpr 20 senv ((ndata True True)\<lparr>detectsum := True\<rparr>) False 4 EXPRCURV_CONVEX False xstate
              = Some (0, ls)
          \<and> children (heap (cs ls) 30) = [24, 25]
          \<and> isTrivial ((ndata True True)\<lparr>detectsum := True\<rparr>) (cs ls) 30"
    using l2 k2 t3 by blast
  from one two three four show ?thesis by blast
qed

text \<open>The claim as stated fails in its second half: with "handle trivial" enabled the
  construction for x + y still returns \<^verbatim>\<open>NULL\<close>, in the convex handler (also when sums
  are detected at the root) and in the concave handler.\<close>

theorem bare_sum_is_trivial_counterexample:
  "handletrivial (ndata True True)
   \<and> map_option fst (constructExpr 20 senv (ndata True True) False 4 EXPRCURV_CONVEX False xstate) = Some 0
   \<and> map_option fst (constructExpr 20 senv ((ndata True True)\<lparr>detectsum := True\<rparr>) False 4
                       EXPRCURV_CONVEX False xstate) = Some 0
   \<and> map_option fst (constructExpr 20 senv (ndata False True) False 4 EXPRCURV_CONCAVE False xstate) = Some 0"
  by (simp add: run_simps)

subsection \<open>The collection of the leafs\<close>


















end
